theory Spec2Isabelle
  imports Complex_Main
begin

section \<open>Values, errors and the world the command line runs in\<close>

text \<open>
  The command line is TypeScript on Node. Its own code is embedded below function by
  function; what it calls but does not define (the JSON codec, the URL parser, the path
  module, viem's key derivation, the SDK's constructors and the client's remote methods)
  is taken as a parameter: the record \<open>host\<close> for the runtime and the libraries, the
  record \<open>remote\<close> for the methods of the SDK client.

  Numbers are doubles: a finite value, an infinity or NaN, with arithmetic that rounds as
  that of the runtime does. The two zeros are one. Strings are \<open>string\<close>.
\<close>

type_synonym path = string

datatype error =
    Error string
  | TypeError string
  | SyntaxError string
  | SystemError string

text \<open>\<open>error instanceof Error ? error.message : String(error)\<close>\<close>

fun message :: "error \<Rightarrow> string" where
  "message (Error m) = m"
| "message (TypeError m) = m"
| "message (SyntaxError m) = m"
| "message (SystemError m) = m"

text \<open>
  The values of the language that the program handles. A number is \<open>JNum n\<close> when it is
  the integer \<open>n\<close>, \<open>JFrac q\<close> when it is finite and not an integer, \<open>JInf True\<close> for
  \<open>Infinity\<close>, \<open>JInf False\<close> for \<open>-Infinity\<close>, and \<open>JNaN\<close>.
\<close>

datatype jsval =
    JUndefined
  | JNull
  | JBool bool
  | JNum int
  | JFrac rat
  | JInf bool
  | JNaN
  | JStr string
  | JArr "jsval list"
  | JObj "(string \<times> jsval) list"

text \<open>
  Reading a property \<open>v.k\<close>. On \<open>null\<close> and \<open>undefined\<close> it throws a TypeError. The keys
  read by this program (\<open>expiresAt\<close>, \<open>token\<close>) are defined by no prototype, so on a
  primitive or an array the result is \<open>undefined\<close>, and on an object it is the own
  property.
\<close>

fun get_prop :: "jsval \<Rightarrow> string \<Rightarrow> error + jsval" where
  "get_prop JUndefined k = Inl (TypeError ''Cannot read properties of undefined'')"
| "get_prop JNull k = Inl (TypeError ''Cannot read properties of null'')"
| "get_prop (JObj kvs) k = Inr (case map_of kvs k of None \<Rightarrow> JUndefined | Some v \<Rightarrow> v)"
| "get_prop v k = Inr JUndefined"

fun truthy :: "jsval \<Rightarrow> bool" where
  "truthy JUndefined = False"
| "truthy JNull = False"
| "truthy (JBool b) = b"
| "truthy (JNum n) = (n \<noteq> 0)"
| "truthy (JFrac q) = (q \<noteq> 0)"
| "truthy (JInf b) = True"
| "truthy JNaN = False"
| "truthy (JStr s) = (s \<noteq> [])"
| "truthy (JArr xs) = True"
| "truthy (JObj kvs) = True"

text \<open>\<open>s.startsWith(p)\<close> and \<open>s.slice(n)\<close> on strings.\<close>

definition startsWith :: "string \<Rightarrow> string \<Rightarrow> bool" where
  "startsWith s p = (take (length p) s = p)"

definition slice :: "string \<Rightarrow> nat \<Rightarrow> string" where
  "slice s n = drop n s"

subsection \<open>Numbers\<close>

text \<open>
  A number is a double: finite, an infinity with its sign (\<open>True\<close> is positive), or NaN.
  The finite doubles are rationals, and \<open>round_to_double x\<close> is the double nearest to the
  rational \<open>x\<close>: with \<open>2 ^ k \<le> \<bar>x\<bar> < 2 ^ (k + 1)\<close>, the unit is \<open>2 ^ (k - 52)\<close>, and
  \<open>2 ^ (- 1074)\<close> at least; \<open>\<bar>x\<bar>\<close> is rounded to a whole number of units, a remainder of
  exactly half a unit going to the even neighbour; a result of \<open>2 ^ 1024\<close> or more is an
  infinity. Multiplication and addition give the double nearest to the exact result.
\<close>

datatype number = Finite rat | Infinite bool | NaN

fun bit_length :: "nat \<Rightarrow> nat" where
  "bit_length n = (if n = 0 then 0 else Suc (bit_length (n div 2)))"

declare bit_length.simps [simp del]

text \<open>The \<open>k\<close> with \<open>2 ^ k \<le> a < 2 ^ (k + 1)\<close>, for \<open>a > 0\<close>.\<close>

definition floor_log2 :: "rat \<Rightarrow> int" where
  "floor_log2 a =
     (if 1 \<le> a then int (bit_length (nat \<lfloor>a\<rfloor>)) - 1
      else - int (bit_length (nat (\<lceil>1 / a\<rceil> - 1))))"

definition round_half_even :: "rat \<Rightarrow> int" where
  "round_half_even x =
     (let f = \<lfloor>x\<rfloor>; r = x - of_int f
      in if 1 / 2 < r \<or> (r = 1 / 2 \<and> odd f) then f + 1 else f)"

definition round_to_double :: "rat \<Rightarrow> number" where
  "round_to_double x =
     (if x = 0 then Finite 0
      else
        (let a = \<bar>x\<bar>;
             e = max (floor_log2 a - 52) (- 1074);
             m = round_half_even (a / 2 powi e);
             v = of_int m * 2 powi e
         in if 2 ^ 1024 \<le> v then Infinite (0 < x)
            else Finite (if 0 < x then v else - v)))"

text \<open>\<open>a * b\<close> and \<open>a + b\<close>.\<close>

fun js_mul :: "number \<Rightarrow> number \<Rightarrow> number" where
  "js_mul (Finite a) (Finite b) = round_to_double (a * b)"
| "js_mul (Finite a) (Infinite s) = (if a = 0 then NaN else Infinite (s = (0 < a)))"
| "js_mul (Infinite s) (Finite b) = (if b = 0 then NaN else Infinite (s = (0 < b)))"
| "js_mul (Infinite s) (Infinite t) = Infinite (s = t)"
| "js_mul NaN b = NaN"
| "js_mul a NaN = NaN"

fun js_add :: "number \<Rightarrow> number \<Rightarrow> number" where
  "js_add (Finite a) (Finite b) = round_to_double (a + b)"
| "js_add (Finite a) (Infinite s) = Infinite s"
| "js_add (Infinite s) (Finite b) = Infinite s"
| "js_add (Infinite s) (Infinite t) = (if s = t then Infinite s else NaN)"
| "js_add NaN b = NaN"
| "js_add a NaN = NaN"

declare js_mul.simps [simp del] js_add.simps [simp del]

text \<open>A number as a value.\<close>

fun number_value :: "number \<Rightarrow> jsval" where
  "number_value (Finite q) = (if of_int \<lfloor>q\<rfloor> = q then JNum \<lfloor>q\<rfloor> else JFrac q)"
| "number_value (Infinite s) = JInf s"
| "number_value NaN = JNaN"

subsection \<open>viem: accounts, chains and clients\<close>

record account =
  address :: string
  publicKey :: string

record chain =
  chain_id :: nat
  chain_name :: string

text \<open>\<open>sepolia\<close> of \<open>viem/chains\<close>.\<close>

definition sepolia :: chain where
  "sepolia = \<lparr>chain_id = 11155111, chain_name = ''Sepolia''\<rparr>"

record public_client =
  pc_chain :: chain

record wallet_client =
  wc_account :: account
  wc_chain :: chain

text \<open>The object \<open>{ account, open, private }\<close> returned by \<open>createUnifiedClient\<close>.\<close>

record unified_client =
  uc_account :: account
  uc_open :: public_client
  uc_private :: wallet_client

subsection \<open>The SDK client\<close>

record lite_options =
  apiUri :: string
  apiKey :: string
  version :: string

record mesh_options = lite_options +
  signer :: unified_client

text \<open>
  A \<open>Mesh\<close> client: its signer (\<open>mesh.getSigner\<close>) and the bearer token set by
  \<open>mesh.setJwtToken\<close>. The token is whatever the cache held, so it is a \<open>jsval\<close>.
\<close>

record mesh =
  getSigner :: unified_client
  mesh_config :: lite_options
  jwtToken :: "jsval option"

record mesh_lite =
  lite_config :: lite_options

datatype sdk = Mesh mesh | MeshLite mesh_lite

definition setJwtToken :: "mesh \<Rightarrow> jsval \<Rightarrow> mesh" where
  "setJwtToken m t = m\<lparr>jwtToken := Some t\<rparr>"

record siwe_params =
  siwe_domain :: string
  siwe_address :: string
  siwe_uri :: string
  siwe_version :: string
  siwe_chainId :: nat
  siwe_nonce :: string
  siwe_issuedAt :: int

record account_detail =
  ad_username :: string
  ad_email :: string
  ad_account_address :: string
  ad_tenant :: "string option"
  ad_role :: "string option"

text \<open>The methods of the client that this program calls; \<open>Inl\<close> is a rejected promise.\<close>

record remote =
  requestNonce :: "mesh \<Rightarrow> string \<Rightarrow> error + string"
  signSiWeMessage :: "mesh \<Rightarrow> siwe_params \<Rightarrow> error + string \<times> string"
  authenticateSiWe :: "mesh \<Rightarrow> string \<Rightarrow> string \<Rightarrow> error + string"
  validateAuthorization :: "sdk \<Rightarrow> jsval \<Rightarrow> error + jsval"
  validateAuthorizations :: "sdk \<Rightarrow> jsval \<Rightarrow> error + jsval"
  accountExists :: "sdk \<Rightarrow> string \<Rightarrow> error + bool"
  accountDetail :: "sdk \<Rightarrow> error + account_detail option"

text \<open>
  The runtime and the libraries. \<open>ToNumber\<close> is the coercion of a string, an array or an
  object to a number; \<open>JSON_stringify_pretty v\<close> is
  \<open>JSON.stringify(v, null, 2)\<close>; \<open>URL_hostname s\<close> is \<open>new URL(s).hostname\<close>;
  \<open>TOKEN_DIR\<close> and \<open>TOKEN_FILE\<close> are the two constants that \<open>sdk.ts\<close> computes from
  \<open>os.homedir()\<close> with \<open>path.join\<close> when the module is loaded.
\<close>

record host =
  JSON_parse :: "string \<Rightarrow> error + jsval"
  JSON_stringify :: "jsval \<Rightarrow> string"
  JSON_stringify_pretty :: "jsval \<Rightarrow> string"
  ToNumber :: "jsval \<Rightarrow> number"
  URL_hostname :: "string \<Rightarrow> error + string"
  path_dirname :: "path \<Rightarrow> path"
  TOKEN_DIR :: path
  TOKEN_FILE :: path
  privateKeyToAccount :: "string \<Rightarrow> error + account"
  MeshSDK_init :: "mesh_options \<Rightarrow> error + mesh"
  MeshSDKLite_init :: "lite_options \<Rightarrow> error + mesh_lite"

record env =
  API_KEY :: "string option"
  PRIVATE_KEY :: "string option"
  API_URI :: "string option"

subsection \<open>File system, clock and terminal\<close>

text \<open>
  A path holds nothing, a directory, a file with its text, or a node that refuses every
  operation (no permission). \<open>write_fault w p = Some n\<close> says that the device fails a
  write to \<open>p\<close> after \<open>n\<close> characters (no space left, an I/O error). The clock is the
  sequence of values that successive reads of \<open>Date.now()\<close> return; each is a time value,
  an integer of at most 8640000000000000 milliseconds in magnitude. The trace records, in
  order, what the program prints, the calls it makes on the client and the changes it
  makes to the file system (\<open>Wrote p s\<close>: the file \<open>p\<close> now holds \<open>s\<close>).
\<close>

datatype node = Dir | File string | NoAccess

datatype call =
    RequestNonce string
  | SignSiWeMessage siwe_params
  | AuthenticateSiWe string string
  | ValidateAuthorization jsval
  | ValidateAuthorizations jsval
  | AccountExists string
  | AccountDetail

datatype event =
    SpinnerStart string
  | SpinnerSucceed string
  | SpinnerFail string
  | ConsoleLog string
  | ConsoleError string
  | Call call
  | MadeDir path
  | Wrote path string

typedef time_value = "{t :: int. - 8640000000000000 \<le> t \<and> t \<le> 8640000000000000}"
  morphisms ms Abs_time_value
  by (rule exI[of _ 0]) simp

setup_lifting type_definition_time_value

text \<open>The time value at \<open>t\<close>, for \<open>t\<close> in the range; the nearest one otherwise.\<close>

lift_definition time_value_at :: "int \<Rightarrow> time_value"
  is "\<lambda>t. max (- 8640000000000000) (min 8640000000000000 t)"
  by simp

record world =
  nodes :: "path \<rightharpoonup> node"
  write_fault :: "path \<rightharpoonup> nat"
  readings :: "nat \<Rightarrow> time_value"
  ticks :: nat
  trace :: "event list"

definition clock :: "world \<Rightarrow> nat \<Rightarrow> int" where
  "clock w k = ms (readings w k)"

definition emit :: "event \<Rightarrow> world \<Rightarrow> world" where
  "emit e w = w\<lparr>trace := trace w @ [e]\<rparr>"

definition Date_now :: "world \<Rightarrow> int \<times> world" where
  "Date_now w = (clock w (ticks w), w\<lparr>ticks := Suc (ticks w)\<rparr>)"

definition existsSync :: "world \<Rightarrow> path \<Rightarrow> bool" where
  "existsSync w p = (nodes w p \<noteq> None)"

definition readFileSync :: "world \<Rightarrow> path \<Rightarrow> error + string" where
  "readFileSync w p =
     (case nodes w p of
        None \<Rightarrow> Inl (SystemError ''ENOENT'')
      | Some Dir \<Rightarrow> Inl (SystemError ''EISDIR'')
      | Some NoAccess \<Rightarrow> Inl (SystemError ''EACCES'')
      | Some (File s) \<Rightarrow> Inr s)"

text \<open>
  The directories above a path, nearest first: its directory name, the directory name of
  that, and so on while the names get shorter, ending with the root or the current
  directory (whose directory name is itself).
\<close>

function ancestors :: "host \<Rightarrow> path \<Rightarrow> path list" where
  "ancestors h p =
     (let d = path_dirname h p
      in if d = p then []
         else if length d < length p then d # ancestors h d
         else [d])"
  by pat_completeness auto
termination
  by (relation "measure (\<lambda>(h, p). length p)") auto

declare ancestors.simps [simp del]

text \<open>The error of going through something that is not a directory.\<close>

definition not_dir_error :: "node option \<Rightarrow> error" where
  "not_dir_error n =
     (case n of
        None \<Rightarrow> SystemError ''ENOENT''
      | Some NoAccess \<Rightarrow> SystemError ''EACCES''
      | _ \<Rightarrow> SystemError ''ENOTDIR'')"

text \<open>
  \<open>fs.mkdirSync(p, { recursive: true })\<close>. On a directory there is nothing to do; on
  anything else that is there it fails. On an absent path it fails when a file or a
  refusing node is above it, taking the first from the root down; otherwise it makes the
  directories that are missing above the path, outermost first, and then the path.
\<close>

definition missing :: "host \<Rightarrow> world \<Rightarrow> path \<Rightarrow> path list" where
  "missing h w p = rev (filter (\<lambda>a. nodes w a = None) (ancestors h p)) @ [p]"

fun make_dirs :: "path list \<Rightarrow> world \<Rightarrow> world" where
  "make_dirs [] w = w"
| "make_dirs (d # ds) w = make_dirs ds (emit (MadeDir d) (w\<lparr>nodes := (nodes w)(d \<mapsto> Dir)\<rparr>))"

definition mkdirSync :: "host \<Rightarrow> path \<Rightarrow> world \<Rightarrow> (error + unit) \<times> world" where
  "mkdirSync h p w =
     (case nodes w p of
        Some Dir \<Rightarrow> (Inr (), w)
      | Some (File s) \<Rightarrow> (Inl (SystemError ''EEXIST''), w)
      | Some NoAccess \<Rightarrow> (Inl (SystemError ''EACCES''), w)
      | None \<Rightarrow>
        (case List.find (\<lambda>a. nodes w a \<noteq> None \<and> nodes w a \<noteq> Some Dir) (rev (ancestors h p)) of
           Some a \<Rightarrow> (Inl (not_dir_error (nodes w a)), w)
         | None \<Rightarrow> (Inr (), make_dirs (missing h w p) w)))"

text \<open>
  \<open>fs.writeFileSync(p, s)\<close> opens the file for writing, which creates it or empties it,
  and then writes. The open fails, and nothing changes, when something above the path is
  not a directory (the first from the root down gives the error) or the path holds a
  directory or a refusing node. When the device fails the write after \<open>n\<close> characters, the
  file is left with those and the call fails.
\<close>

definition writeFileSync :: "host \<Rightarrow> path \<Rightarrow> string \<Rightarrow> world \<Rightarrow> (error + unit) \<times> world" where
  "writeFileSync h p s w =
     (case List.find (\<lambda>a. nodes w a \<noteq> Some Dir) (rev (ancestors h p)) of
        Some a \<Rightarrow> (Inl (not_dir_error (nodes w a)), w)
      | None \<Rightarrow>
        (case nodes w p of
           Some Dir \<Rightarrow> (Inl (SystemError ''EISDIR''), w)
         | Some NoAccess \<Rightarrow> (Inl (SystemError ''EACCES''), w)
         | _ \<Rightarrow>
           (case write_fault w p of
              None \<Rightarrow> (Inr (), emit (Wrote p s) (w\<lparr>nodes := (nodes w)(p \<mapsto> File s)\<rparr>))
            | Some n \<Rightarrow>
                (Inl (SystemError ''EIO''),
                 emit (Wrote p (take n s)) (w\<lparr>nodes := (nodes w)(p \<mapsto> File (take n s))\<rparr>)))))"

section \<open>\<open>utils/sdk.ts\<close>\<close>

definition DEFAULT_API_URI :: string where
  "DEFAULT_API_URI = ''http://localhost:8080''"

definition SDK_VERSION :: string where
  "SDK_VERSION = ''0.1.0''"

text \<open>\<open>x || d\<close> on an environment variable: unset and empty both give \<open>d\<close>.\<close>

fun or_default :: "string option \<Rightarrow> string \<Rightarrow> string" where
  "or_default None d = d"
| "or_default (Some s) d = (if s = [] then d else s)"

text \<open>Truthiness of an environment variable: set, and not the empty string.\<close>

fun present :: "string option \<Rightarrow> bool" where
  "present None = False"
| "present (Some s) = (s \<noteq> [])"

definition createUnifiedClient :: "host \<Rightarrow> string \<Rightarrow> chain \<Rightarrow> error + unified_client" where
  "createUnifiedClient h privateKey chain =
     (let normalizedKey = (if startsWith privateKey ''0x'' then slice privateKey 2 else privateKey)
      in case privateKeyToAccount h (''0x'' @ normalizedKey) of
           Inl e \<Rightarrow> Inl e
         | Inr viemAccount \<Rightarrow>
             Inr \<lparr>uc_account = viemAccount,
                  uc_open = \<lparr>pc_chain = chain\<rparr>,
                  uc_private = \<lparr>wc_account = viemAccount, wc_chain = chain\<rparr>\<rparr>)"

text \<open>
  The interface \<open>TokenData\<close>: an object whose \<open>token\<close> is a string and whose \<open>expiresAt\<close>
  is a number. \<open>TokenData token expiresAt\<close> is the object \<open>{ token, expiresAt }\<close> with an
  integral \<open>expiresAt\<close>, and \<open>TokenObject token expiresAt\<close> the one that \<open>saveToken\<close>
  serialises, whose \<open>expiresAt\<close> is any number.
\<close>

definition is_TokenData :: "jsval \<Rightarrow> bool" where
  "is_TokenData v =
     (case v of
        JObj kvs \<Rightarrow>
          (case (map_of kvs ''token'', map_of kvs ''expiresAt'') of
             (Some (JStr t), Some (JNum e)) \<Rightarrow> True
           | (Some (JStr t), Some (JFrac q)) \<Rightarrow> True
           | (Some (JStr t), Some (JInf b)) \<Rightarrow> True
           | (Some (JStr t), Some JNaN) \<Rightarrow> True
           | _ \<Rightarrow> False)
      | _ \<Rightarrow> False)"

definition TokenData :: "string \<Rightarrow> int \<Rightarrow> jsval" where
  "TokenData token expiresAt = JObj [(''token'', JStr token), (''expiresAt'', JNum expiresAt)]"

definition TokenObject :: "string \<Rightarrow> number \<Rightarrow> jsval" where
  "TokenObject token expiresAt =
     JObj [(''token'', JStr token), (''expiresAt'', number_value expiresAt)]"

text \<open>
  \<open>saveToken\<close>. \<open>expiresIn\<close> is any number; \<open>Date.now() + expiresIn * 1000\<close> is computed
  as the runtime does.
\<close>

definition saveToken :: "host \<Rightarrow> string \<Rightarrow> number \<Rightarrow> world \<Rightarrow> (error + unit) \<times> world" where
  "saveToken h token expiresIn w =
     (case (if \<not> existsSync w (TOKEN_DIR h) then mkdirSync h (TOKEN_DIR h) w else (Inr (), w)) of
        (Inl e, w1) \<Rightarrow> (Inl e, w1)
      | (Inr _, w1) \<Rightarrow>
          (let (now, w2) = Date_now w1;
               expiresAt = js_add (Finite (of_int now)) (js_mul expiresIn (Finite 1000))
           in writeFileSync h (TOKEN_FILE h) (JSON_stringify h (TokenObject token expiresAt)) w2))"

text \<open>
  \<open>x > n\<close> for a number \<open>n\<close>: \<open>x\<close> is coerced to a number, and the comparison with NaN is
  false.
\<close>

definition js_to_number :: "host \<Rightarrow> jsval \<Rightarrow> number" where
  "js_to_number h v =
     (case v of
        JUndefined \<Rightarrow> NaN
      | JNull \<Rightarrow> Finite 0
      | JBool b \<Rightarrow> Finite (if b then 1 else 0)
      | JNum n \<Rightarrow> Finite (of_int n)
      | JFrac q \<Rightarrow> Finite q
      | JInf b \<Rightarrow> Infinite b
      | JNaN \<Rightarrow> NaN
      | _ \<Rightarrow> ToNumber h v)"

definition js_gt :: "host \<Rightarrow> jsval \<Rightarrow> int \<Rightarrow> bool" where
  "js_gt h v n =
     (case js_to_number h v of
        NaN \<Rightarrow> False
      | Finite x \<Rightarrow> x > of_int n
      | Infinite b \<Rightarrow> b)"

text \<open>\<open>getToken\<close>: \<open>None\<close> is \<open>null\<close>. The clock is read only when the comparison is reached.\<close>

definition getToken :: "host \<Rightarrow> world \<Rightarrow> jsval option \<times> world" where
  "getToken h w =
     (if existsSync w (TOKEN_FILE h) then
        (case readFileSync w (TOKEN_FILE h) of
           Inl e \<Rightarrow> (None, w)
         | Inr text \<Rightarrow>
           (case JSON_parse h text of
              Inl e \<Rightarrow> (None, w)
            | Inr data \<Rightarrow>
              (case get_prop data ''expiresAt'' of
                 Inl e \<Rightarrow> (None, w)
               | Inr expiresAt \<Rightarrow>
                   (let (now, w1) = Date_now w
                    in if js_gt h expiresAt now then (Some data, w1) else (None, w1)))))
      else (None, w))"

definition initSDKWithApiKey :: "host \<Rightarrow> string \<Rightarrow> string \<Rightarrow> error + mesh_lite" where
  "initSDKWithApiKey h apiKey' apiUri' =
     (if apiKey' = [] then Inl (Error ''API key is required'')
      else MeshSDKLite_init h \<lparr>apiUri = apiUri', apiKey = apiKey', version = SDK_VERSION\<rparr>)"

definition initSDKWithPrivateKey ::
  "host \<Rightarrow> string \<Rightarrow> string \<Rightarrow> string \<Rightarrow> world \<Rightarrow> (error + mesh) \<times> world" where
  "initSDKWithPrivateKey h privateKey apiKey' apiUri' w =
     (if privateKey = [] then (Inl (Error ''Private key is required''), w)
      else
        (case createUnifiedClient h privateKey sepolia of
           Inl e \<Rightarrow> (Inl e, w)
         | Inr unifiedClient \<Rightarrow>
           (case MeshSDK_init h \<lparr>apiUri = apiUri', apiKey = apiKey', version = SDK_VERSION,
                                  signer = unifiedClient\<rparr> of
              Inl e \<Rightarrow> (Inl e, w)
            | Inr mesh \<Rightarrow>
              (case getToken h w of
                 (None, w1) \<Rightarrow> (Inr mesh, w1)
               | (Some tokenData, w1) \<Rightarrow>
                   (if truthy tokenData then
                      (let w2 = emit (ConsoleLog ''Using existing token'') w1
                       in case get_prop tokenData ''token'' of
                            Inl e \<Rightarrow> (Inl e, w2)
                          | Inr t \<Rightarrow> (Inr (setJwtToken mesh t), w2))
                    else (Inr mesh, w1))))))"

text \<open>
  \<open>initSDK\<close>. In a branch guarded by \<open>present x\<close>, the string that \<open>x\<close> holds is
  \<open>or_default x []\<close>.
\<close>

definition initSDK :: "host \<Rightarrow> env \<Rightarrow> world \<Rightarrow> (error + sdk) \<times> world" where
  "initSDK h env w =
     (let apiKey' = API_KEY env;
          privateKey = PRIVATE_KEY env;
          apiUri' = or_default (API_URI env) DEFAULT_API_URI
      in if present apiKey' \<and> \<not> present privateKey then
           (case initSDKWithApiKey h (or_default apiKey' []) apiUri' of
              Inl e \<Rightarrow> (Inl e, w)
            | Inr lite \<Rightarrow> (Inr (MeshLite lite), w))
         else if present privateKey then
           (case initSDKWithPrivateKey h (or_default privateKey []) (or_default apiKey' [])
                   apiUri' w of
              (Inl e, w1) \<Rightarrow> (Inl e, w1)
            | (Inr m, w1) \<Rightarrow> (Inr (Mesh m), w1))
         else
           (Inl (Error ''Either API_KEY or PRIVATE_KEY must be provided in environment variables''),
            w))"

text \<open>
  \<open>loginWithSIWE\<close>. The object \<open>siweMessageParams\<close> is a function of what it is built
  from: the host name, the signer's address, the API URI, the nonce and the time of issue.
  \<open>30 * 24 * 60 * 60\<close> is written as in the source.
\<close>

definition siweMessageParams :: "string \<Rightarrow> string \<Rightarrow> string \<Rightarrow> string \<Rightarrow> int \<Rightarrow> siwe_params" where
  "siweMessageParams domain addr apiUri' nonce issued =
     \<lparr>siwe_domain = domain,
      siwe_address = addr,
      siwe_uri = apiUri',
      siwe_version = ''1'',
      siwe_chainId = 1,
      siwe_nonce = nonce,
      siwe_issuedAt = issued\<rparr>"

definition loginWithSIWE :: "host \<Rightarrow> remote \<Rightarrow> env \<Rightarrow> mesh \<Rightarrow> world \<Rightarrow> (error + string) \<times> world" where
  "loginWithSIWE h r env m w =
     (let addr = address (uc_account (getSigner m));
          w1 = emit (Call (RequestNonce addr)) w
      in case requestNonce r m addr of
           Inl e \<Rightarrow> (Inl e, w1)
         | Inr nonce \<Rightarrow>
           (let apiUri' = or_default (API_URI env) DEFAULT_API_URI
            in case URL_hostname h apiUri' of
                 Inl e \<Rightarrow> (Inl e, w1)
               | Inr domain \<Rightarrow>
                 (let (issued, w2) = Date_now w1;
                      params = siweMessageParams domain addr apiUri' nonce issued;
                      w3 = emit (Call (SignSiWeMessage params)) w2
                  in case signSiWeMessage r m params of
                       Inl e \<Rightarrow> (Inl e, w3)
                     | Inr (msg, signature) \<Rightarrow>
                       (let w4 = emit (Call (AuthenticateSiWe msg signature)) w3
                        in case authenticateSiWe r m msg signature of
                             Inl e \<Rightarrow> (Inl e, w4)
                           | Inr token \<Rightarrow>
                             (case saveToken h token (Finite (30 * 24 * 60 * 60)) w4 of
                                (Inl e, w5) \<Rightarrow> (Inl e, w5)
                              | (Inr _, w5) \<Rightarrow> (Inr token, w5))))))"

section \<open>\<open>commands/enforcer.ts\<close>: \<open>auth account-exists\<close>\<close>

text \<open>
  The handlers return nothing; their effect is the world they leave. Colours are left
  out of the printed text. \<open>nl\<close> is the line feed.
\<close>

definition nl :: string where
  "nl = [CHR 0x0A]"

text \<open>\<open>x || 'N/A'\<close>\<close>

definition or_NA :: "string option \<Rightarrow> string" where
  "or_NA x = or_default x ''N/A''"

text \<open>The \<open>catch\<close> block of a handler: the spinner fails with \<open>msg\<close>, the error is printed.\<close>

definition report_failure :: "string \<Rightarrow> error \<Rightarrow> world \<Rightarrow> world" where
  "report_failure msg e w = emit (ConsoleError (''Error: '' @ message e)) (emit (SpinnerFail msg) w)"

definition print_account_details :: "account_detail \<Rightarrow> world \<Rightarrow> world" where
  "print_account_details d w =
     (let w1 = emit (ConsoleLog (nl @ ''Account Details:'')) w;
          w2 = emit (ConsoleLog (''Username: '' @ ad_username d)) w1;
          w3 = emit (ConsoleLog (''Email: '' @ ad_email d)) w2;
          w4 = emit (ConsoleLog (''Account Address: '' @ ad_account_address d)) w3;
          w5 = emit (ConsoleLog (''Tenant: '' @ or_NA (ad_tenant d))) w4
      in emit (ConsoleLog (''Role: '' @ or_NA (ad_role d))) w5)"

definition account_exists_action :: "host \<Rightarrow> remote \<Rightarrow> env \<Rightarrow> string \<Rightarrow> world \<Rightarrow> world" where
  "account_exists_action h r env addr w =
     (let w0 = emit (SpinnerStart ''Checking if account exists...'') w
      in case initSDK h env w0 of
           (Inl e, w1) \<Rightarrow> report_failure ''Failed to check account'' e w1
         | (Inr sdk, w1) \<Rightarrow>
           (if \<not> startsWith addr ''0x'' then
              emit (ConsoleError ''Error: Address must start with 0x'')
                (emit (SpinnerFail ''Invalid address format'') w1)
            else
              (let w2 = emit (Call (AccountExists addr)) w1
               in case accountExists r sdk addr of
                    Inl e \<Rightarrow> report_failure ''Failed to check account'' e w2
                  | Inr ex \<Rightarrow>
                    (let w3 = emit (SpinnerSucceed ''Account check completed'') w2
                     in if ex then
                          (let w4 = emit (ConsoleLog (nl @ ''Account exists'')) w3;
                               w5 = emit (Call AccountDetail) w4
                           in case accountDetail r sdk of
                                Inl e \<Rightarrow>
                                  emit (ConsoleLog (nl @ ''Account exists but could not fetch details. You may need to authenticate first.'')) w5
                              | Inr None \<Rightarrow> w5
                              | Inr (Some d) \<Rightarrow> print_account_details d w5)
                        else emit (ConsoleLog (nl @ ''Account does not exist'')) w3))))"

section \<open>\<open>commands/authorization.ts\<close>: \<open>auth authorize\<close> and \<open>auth authorize-batch\<close>\<close>

text \<open>
  \<open>--outfile [path]\<close> takes an optional value: the option is not given, given bare
  (\<open>true\<close>), or given with a path.
\<close>

datatype optarg = Unset | Flag | Value string

record authorize_options =
  opt_file :: "string option"
  opt_json :: "string option"
  opt_outfile :: optarg

fun given :: "optarg \<Rightarrow> bool" where
  "given Unset = False"
| "given Flag = True"
| "given (Value s) = (s \<noteq> [])"

fun outPath :: "optarg \<Rightarrow> path" where
  "outPath Flag = ''tmp/my.json''"
| "outPath (Value s) = s"
| "outPath Unset = []"

text \<open>
  The request is read the same way by both commands: from the file, else from the inline
  string, else the command stops. \<open>Inl\<close> is the world in which the handler has reported
  the failure and returned; \<open>Inr\<close> is \<open>requestData\<close>.
\<close>

definition requestData :: "host \<Rightarrow> authorize_options \<Rightarrow> world \<Rightarrow> world + jsval" where
  "requestData h options w =
     (if present (opt_file options) then
        (let f = or_default (opt_file options) []
         in case readFileSync w f of
              Inl e \<Rightarrow> Inl (report_failure (''Failed to read or parse file: '' @ f) e w)
            | Inr text \<Rightarrow>
              (case JSON_parse h text of
                 Inl e \<Rightarrow> Inl (report_failure (''Failed to read or parse file: '' @ f) e w)
               | Inr v \<Rightarrow> Inr v))
      else if present (opt_json options) then
        (case JSON_parse h (or_default (opt_json options) []) of
           Inl e \<Rightarrow> Inl (report_failure ''Failed to parse JSON string'' e w)
         | Inr v \<Rightarrow> Inr v)
      else Inl (emit (SpinnerFail ''No input provided. Use --file or --json option.'') w))"

text \<open>The response is saved when \<open>--outfile\<close> is given.\<close>

definition saveResponse :: "host \<Rightarrow> optarg \<Rightarrow> jsval \<Rightarrow> world \<Rightarrow> (error + unit) \<times> world" where
  "saveResponse h out response w =
     (if given out then
        (let p = outPath out;
             dirPath = path_dirname h p
         in case (if \<not> existsSync w dirPath then mkdirSync h dirPath w else (Inr (), w)) of
              (Inl e, w1) \<Rightarrow> (Inl e, w1)
            | (Inr _, w1) \<Rightarrow>
              (case writeFileSync h p (JSON_stringify_pretty h response) w1 of
                 (Inl e, w2) \<Rightarrow> (Inl e, w2)
               | (Inr _, w2) \<Rightarrow> (Inr (), emit (ConsoleLog (nl @ ''Response saved to '' @ p)) w2)))
      else (Inr (), w))"

definition authorize_action :: "host \<Rightarrow> remote \<Rightarrow> env \<Rightarrow> authorize_options \<Rightarrow> world \<Rightarrow> world" where
  "authorize_action h r env options w =
     (let w0 = emit (SpinnerStart ''Validating authorization...'') w
      in case requestData h options w0 of
           Inl w1 \<Rightarrow> w1
         | Inr req \<Rightarrow>
           (case initSDK h env w0 of
              (Inl e, w1) \<Rightarrow> report_failure ''Authorization validation failed'' e w1
            | (Inr sdk, w1) \<Rightarrow>
              (let w2 = emit (Call (ValidateAuthorization req)) w1
               in case validateAuthorization r sdk req of
                    Inl e \<Rightarrow> report_failure ''Authorization validation failed'' e w2
                  | Inr response \<Rightarrow>
                    (let w3 = emit (SpinnerSucceed ''Authorization validated'') w2;
                         w4 = emit (ConsoleLog (nl @ ''Authorization Response:'')) w3;
                         w5 = emit (ConsoleLog (JSON_stringify_pretty h response)) w4
                     in case saveResponse h (opt_outfile options) response w5 of
                          (Inl e, w6) \<Rightarrow> report_failure ''Authorization validation failed'' e w6
                        | (Inr _, w6) \<Rightarrow> w6))))"

definition authorize_batch_action :: "host \<Rightarrow> remote \<Rightarrow> env \<Rightarrow> authorize_options \<Rightarrow> world \<Rightarrow> world" where
  "authorize_batch_action h r env options w =
     (let w0 = emit (SpinnerStart ''Validating batch authorization...'') w
      in case requestData h options w0 of
           Inl w1 \<Rightarrow> w1
         | Inr req \<Rightarrow>
           (case initSDK h env w0 of
              (Inl e, w1) \<Rightarrow> report_failure ''Batch authorization validation failed'' e w1
            | (Inr sdk, w1) \<Rightarrow>
              (let w2 = emit (Call (ValidateAuthorizations req)) w1
               in case validateAuthorizations r sdk req of
                    Inl e \<Rightarrow> report_failure ''Batch authorization validation failed'' e w2
                  | Inr response \<Rightarrow>
                    (let w3 = emit (SpinnerSucceed ''Batch authorization validated'') w2;
                         w4 = emit (ConsoleLog (nl @ ''Batch Authorization Response:'')) w3;
                         w5 = emit (ConsoleLog (JSON_stringify_pretty h response)) w4
                     in case saveResponse h (opt_outfile options) response w5 of
                          (Inl e, w6) \<Rightarrow> report_failure ''Batch authorization validation failed'' e w6
                        | (Inr _, w6) \<Rightarrow> w6))))"

section \<open>A concrete host, client and world\<close>

text \<open>
  The statements proved below are instantiated on these values. The JSON codec of the
  example host answers as Node's does on the texts listed, and rejects every other text;
  none of the values used reaches \<open>ToNumber\<close>. The account is the one of the private
  key 1.
\<close>

definition example_json :: "(string \<times> jsval) list" where
  \<open>example_json =
     [(''{"token":"jwt-1","expiresAt":2592001001}'', TokenData ''jwt-1'' 2592001001),
      (''{"token":"jwt-1","expiresAt":9007199254741000}'', TokenData ''jwt-1'' 9007199254741000),
      (''{"token":"jwt-1","expiresAt":1501}'', TokenData ''jwt-1'' 1501),
      (''{"token":"jwt-1","expiresAt":1001.48828125}'',
         JObj [(''token'', JStr ''jwt-1''), (''expiresAt'', JFrac (256381 / 256))]),
      (''{"expiresAt":99999999999999}'', JObj [(''expiresAt'', JNum 99999999999999)]),
      (''{"subject":"alice","action":"read"}'',
         JObj [(''subject'', JStr ''alice''), (''action'', JStr ''read'')]),
      (''{ "subject": "alice", "action": "read" }'',
         JObj [(''subject'', JStr ''alice''), (''action'', JStr ''read'')]),
      (''null'', JNull)]\<close>

definition example_pretty :: "(jsval \<times> string) list" where
  \<open>example_pretty =
     [(JObj [(''authorized'', JBool True)],
       ''{'' @ [CHR 0x0A] @ ''  "authorized": true'' @ [CHR 0x0A] @ ''}'')]\<close>

text \<open>The directory names of the absolute paths used; every other path used is relative.\<close>

definition example_dirnames :: "(path \<times> path) list" where
  "example_dirnames =
     [(''/home/user/.mesh-cli/token.json'', ''/home/user/.mesh-cli''),
      (''/home/user/.mesh-cli'', ''/home/user''),
      (''/home/user'', ''/home''),
      (''/home'', ''/''),
      (''/'', ''/''),
      (''tmp/my.json'', ''tmp'')]"

definition example_key :: string where
  "example_key = ''0000000000000000000000000000000000000000000000000000000000000001''"

definition example_account :: account where
  "example_account =
     \<lparr>address = ''0x7E5F4552091A69125d5DfCb7b8C2659029395Bdf'',
      publicKey = ''0x0479be667ef9dcbbac55a06295ce870b07029bfcdb2dce28d959f2815b16f81798483ada7726a3c4655da4fbfc0e1108a8fd17b448a68554199c47d08ffb10d4b8''\<rparr>"

definition example_host :: host where
  "example_host =
     \<lparr>JSON_parse = (\<lambda>s. case map_of example_json s of
                           None \<Rightarrow> Inl (SyntaxError ''Unexpected token'')
                         | Some v \<Rightarrow> Inr v),
      JSON_stringify = (\<lambda>v. case map_of (map (\<lambda>(s, v). (v, s)) example_json) v of
                               None \<Rightarrow> ''null''
                             | Some s \<Rightarrow> s),
      JSON_stringify_pretty = (\<lambda>v. case map_of example_pretty v of
                                      None \<Rightarrow> ''null''
                                    | Some s \<Rightarrow> s),
      ToNumber = (\<lambda>v. NaN),
      URL_hostname = (\<lambda>s. if s = ''http://localhost:8080'' then Inr ''localhost''
                           else Inl (TypeError ''Invalid URL'')),
      path_dirname = (\<lambda>p. case map_of example_dirnames p of None \<Rightarrow> ''.'' | Some d \<Rightarrow> d),
      TOKEN_DIR = ''/home/user/.mesh-cli'',
      TOKEN_FILE = ''/home/user/.mesh-cli/token.json'',
      privateKeyToAccount = (\<lambda>k. if k = ''0x'' @ example_key then Inr example_account
                                  else Inl (Error ''invalid private key'')),
      MeshSDK_init = (\<lambda>opts. Inr \<lparr>getSigner = signer opts,
                                    mesh_config = \<lparr>apiUri = apiUri opts, apiKey = apiKey opts,
                                                    version = version opts\<rparr>,
                                    jwtToken = None\<rparr>),
      MeshSDKLite_init = (\<lambda>opts. Inr \<lparr>lite_config = opts\<rparr>)\<rparr>"

text \<open>A host whose key derivation accepts every key.\<close>

definition lenient_host :: host where
  "lenient_host = example_host\<lparr>privateKeyToAccount := (\<lambda>k. Inr example_account)\<rparr>"

definition example_remote :: remote where
  "example_remote =
     \<lparr>requestNonce = (\<lambda>m a. Inr ''nonce-1''),
      signSiWeMessage = (\<lambda>m p. Inr (''siwe-message'', ''0xsignature'')),
      authenticateSiWe = (\<lambda>m msg sg. Inr ''jwt-1''),
      validateAuthorization = (\<lambda>s v. Inr (JObj [(''authorized'', JBool True)])),
      validateAuthorizations = (\<lambda>s v. Inr (JObj [(''authorized'', JBool True)])),
      accountExists = (\<lambda>s a. Inr True),
      accountDetail = (\<lambda>s. Inr None)\<rparr>"

text \<open>A client whose service refuses the signed message.\<close>

definition refusing_remote :: remote where
  "refusing_remote = example_remote\<lparr>authenticateSiWe := (\<lambda>m msg sg. Inl (Error ''401''))\<rparr>"

definition example_env :: env where
  "example_env = \<lparr>API_KEY = None, PRIVATE_KEY = Some example_key, API_URI = None\<rparr>"

definition example_mesh :: mesh where
  "example_mesh =
     \<lparr>getSigner = \<lparr>uc_account = example_account,
                   uc_open = \<lparr>pc_chain = sepolia\<rparr>,
                   uc_private = \<lparr>wc_account = example_account, wc_chain = sepolia\<rparr>\<rparr>,
      mesh_config = \<lparr>apiUri = DEFAULT_API_URI, apiKey = [], version = SDK_VERSION\<rparr>,
      jwtToken = None\<rparr>"

text \<open>
  A world with a home directory and no credential yet, on a sound device; the clock reads
  1000, 1001, ... The other worlds differ from it in what the path of the credential file
  holds.
\<close>

definition example_world :: world where
  "example_world =
     \<lparr>nodes = [''/'' \<mapsto> Dir, ''/home'' \<mapsto> Dir, ''/home/user'' \<mapsto> Dir, ''.'' \<mapsto> Dir],
      write_fault = Map.empty,
      readings = (\<lambda>k. time_value_at (1000 + int k)),
      ticks = 0,
      trace = []\<rparr>"

definition world_with :: "node \<Rightarrow> world" where
  "world_with n =
     example_world\<lparr>nodes := (nodes example_world)
        (''/home/user/.mesh-cli'' \<mapsto> Dir, ''/home/user/.mesh-cli/token.json'' \<mapsto> n)\<rparr>"

definition request_world :: world where
  \<open>request_world =
     example_world\<lparr>nodes := (nodes example_world)
        (''request.json'' \<mapsto> File ''{ "subject": "alice", "action": "read" }'')\<rparr>\<close>


section \<open>Evaluation and case analysis\<close>

lemmas example_defs = example_host_def example_remote_def example_env_def example_world_def
  example_mesh_def example_json_def example_pretty_def example_key_def example_account_def
  example_dirnames_def world_with_def

lemma bit_length_pos: "0 < n \<Longrightarrow> bit_length n = Suc (bit_length (n div 2))"
  by (subst bit_length.simps) simp

lemma bit_length_upper: "n < 2 ^ bit_length n"
proof (induction n rule: bit_length.induct)
  case (1 n)
  show ?case
  proof (cases "n = 0")
    case True
    then show ?thesis by simp
  next
    case False
    then have "n div 2 < 2 ^ bit_length (n div 2)" using 1 by simp
    then have "n < 2 * 2 ^ bit_length (n div 2)" by linarith
    then show ?thesis using False by (simp add: bit_length_pos)
  qed
qed

lemma bit_length_le: "n < 2 ^ m \<Longrightarrow> bit_length n \<le> m"
proof (induction n arbitrary: m rule: bit_length.induct)
  case (1 n)
  show ?case
  proof (cases "n = 0")
    case True
    then show ?thesis by (simp add: bit_length.simps)
  next
    case False
    with 1(2) obtain k where m: "m = Suc k" by (cases m) auto
    with 1(2) have "n div 2 < 2 ^ k" by simp
    with 1(1)[OF False] have "bit_length (n div 2) \<le> k" by simp
    then show ?thesis using False m by (simp add: bit_length_pos)
  qed
qed

lemma round_half_even_int: "round_half_even (of_int n) = n"
  by (simp add: round_half_even_def)

lemma round_to_double_int:
  assumes "\<bar>x\<bar> < 2 ^ 53"
  shows "round_to_double (of_int x) = Finite (of_int x)"
proof (cases "x = 0")
  case True
  then show ?thesis by (simp add: round_to_double_def)
next
  case False
  define a :: rat where "a = of_int \<bar>x\<bar>"
  define b where "b = bit_length (nat \<bar>x\<bar>)"
  have abs: "\<bar>of_int x :: rat\<bar> = a" by (simp add: a_def)
  have "nat \<bar>x\<bar> < 2 ^ 53" using assms by simp
  then have b53: "b \<le> 53" unfolding b_def by (rule bit_length_le)
  have "1 \<le> \<bar>x\<bar>" using False by simp
  then have a1: "1 \<le> a" unfolding a_def by (simp only: of_int_1_le_iff)
  have "\<lfloor>a\<rfloor> = \<bar>x\<bar>" unfolding a_def by (rule floor_of_int)
  then have fl: "floor_log2 a = int b - 1"
    using a1 by (simp add: floor_log2_def b_def)
  have e: "max (floor_log2 a - 52) (- 1074) = - int (53 - b)"
    using b53 by (simp add: fl)
  have scaled: "a / 2 powi (- int (53 - b)) = of_int (\<bar>x\<bar> * 2 ^ (53 - b))"
    by (simp add: a_def power_int_minus field_simps)
  have restored: "(of_int (\<bar>x\<bar> * 2 ^ (53 - b)) :: rat) * 2 powi (- int (53 - b)) = a"
    by (simp add: a_def power_int_minus field_simps)
  have small: "\<not> (2 ^ 1024 \<le> a)"
  proof -
    have "a < of_int (2 ^ 53)"
      unfolding a_def using assms by (simp only: of_int_less_iff)
    then have "a < 2 ^ 53" by simp
    also have "\<dots> \<le> 2 ^ 1024" by (rule power_increasing) simp_all
    finally show ?thesis by simp
  qed
  have "round_to_double (of_int x) = Finite (if 0 < (of_int x :: rat) then a else - a)"
    using False small unfolding round_to_double_def Let_def abs e scaled round_half_even_int restored
    by simp
  also have "(if 0 < (of_int x :: rat) then a else - a) = of_int x"
    by (simp add: a_def)
  finally show ?thesis .
qed

lemma bit_length_numeral:
  "bit_length 0 = 0"
  "bit_length 1 = 1"
  "bit_length (Suc 0) = Suc 0"
  "bit_length (numeral (Num.Bit0 k)) = Suc (bit_length (numeral k))"
  "bit_length (numeral (Num.Bit1 k)) = Suc (bit_length (numeral k))"
proof -
  have zero: "bit_length 0 = 0" by (subst bit_length.simps) simp
  show "bit_length 0 = 0" by (rule zero)
  show one: "bit_length (Suc 0) = Suc 0" by (subst bit_length.simps) (simp add: zero)
  then show "bit_length 1 = 1" by simp
  have "numeral (Num.Bit0 k) div 2 = (numeral k :: nat)"
    by (simp add: numeral_Bit0_div_2)
  then show "bit_length (numeral (Num.Bit0 k)) = Suc (bit_length (numeral k))"
    by (subst bit_length.simps) simp
  have "numeral (Num.Bit1 k) div 2 = (numeral k :: nat)"
    by (simp add: numeral_Bit1_div_2)
  then show "bit_length (numeral (Num.Bit1 k)) = Suc (bit_length (numeral k))"
    by (subst bit_length.simps) simp
qed

lemma floor_numeral_quotient:
  "\<lfloor>numeral a / numeral b :: rat\<rfloor> = numeral a div numeral b"
  using floor_divide_of_int_eq[of "numeral a" "numeral b", where ?'a = rat] by simp

lemma ceiling_numeral_quotient:
  "\<lceil>numeral a / numeral b :: rat\<rceil> = - (- numeral a div numeral b)"
  using ceiling_divide_eq_div[of "numeral a" "numeral b", where ?'a = rat] by simp

lemma round_to_double_numeral:
  "\<bar>numeral k :: int\<bar> < 2 ^ 53 \<Longrightarrow> round_to_double (numeral k) = Finite (numeral k)"
  using round_to_double_int[of "numeral k"] by simp

lemma bit_length_lower: "0 < n \<Longrightarrow> 2 ^ (bit_length n - 1) \<le> n"
proof (induction n rule: bit_length.induct)
  case (1 n)
  show ?case
  proof (cases "n div 2 = 0")
    case True
    with 1(2) have "n = 1" by presburger
    then show ?thesis by (simp add: bit_length_numeral)
  next
    case False
    then have pos: "0 < n div 2" by simp
    with 1 have ih: "2 ^ (bit_length (n div 2) - 1) \<le> n div 2" by simp
    obtain j where j: "bit_length (n div 2) = Suc j"
      using bit_length_pos[OF pos] by simp
    have "bit_length n = Suc (Suc j)" using 1(2) j by (simp add: bit_length_pos)
    moreover have "2 * 2 ^ j \<le> n" using ih j by simp
    ultimately show ?thesis by simp
  qed
qed

lemma floor_log2_bounds:
  assumes "0 < a"
  shows "2 powi floor_log2 a \<le> a \<and> a < 2 powi (floor_log2 a + 1)"
proof (cases "1 \<le> a")
  case True
  define n where "n = nat \<lfloor>a\<rfloor>"
  have n1: "0 < n" using True by (simp add: n_def)
  have fl: "floor_log2 a = int (bit_length n - 1)"
    using True bit_length_pos[OF n1] by (simp add: floor_log2_def n_def)
  have na1: "of_nat n \<le> a"
    using True by (simp add: n_def)
  have na2: "a < of_nat n + 1"
  proof -
    have "a < of_int \<lfloor>a\<rfloor> + 1" by linarith
    then show ?thesis using True by (simp add: n_def)
  qed
  note na = na1 na2
  have "(of_nat (2 ^ (bit_length n - 1)) :: rat) \<le> of_nat n"
    using bit_length_lower[OF n1] by (simp only: of_nat_le_iff)
  then have "(2::rat) ^ (bit_length n - 1) \<le> of_nat n" by simp
  then have low: "2 ^ (bit_length n - 1) \<le> a" using na(1) by (rule order_trans)
  have "n + 1 \<le> 2 ^ bit_length n" using bit_length_upper[of n] by simp
  then have "(of_nat (n + 1) :: rat) \<le> of_nat (2 ^ bit_length n)" by (simp only: of_nat_le_iff)
  then have "a < 2 ^ bit_length n" using na(2) by simp
  moreover have "bit_length n = Suc (bit_length n - 1)" using bit_length_pos[OF n1] by simp
  ultimately have up: "a < 2 ^ Suc (bit_length n - 1)" by simp
  have "int (bit_length n - 1) + 1 = int (Suc (bit_length n - 1))" by simp
  then show ?thesis
    unfolding fl using low up by (simp only: power_int_of_nat) 
next
  case False
  define c where "c = nat \<lceil>1 / a\<rceil>"
  define j where "j = bit_length (c - 1)"
  have y: "1 < 1 / a" using False assms by simp
  then have c2: "2 \<le> c" unfolding c_def by linarith
  have yc: "1 / a \<le> of_nat c" "of_nat c - 1 < 1 / a"
    unfolding c_def using y by (simp_all, linarith+)
  have "nat (\<lceil>1 / a\<rceil> - 1) = c - 1" unfolding c_def by simp
  then have fl: "floor_log2 a = - int j"
    using False by (simp add: floor_log2_def j_def)
  have "c - 1 < 2 ^ j" unfolding j_def by (rule bit_length_upper)
  then have "c \<le> 2 ^ j" by simp
  then have "(of_nat c :: rat) \<le> of_nat (2 ^ j)" by (simp only: of_nat_le_iff)
  then have "(of_nat c :: rat) \<le> 2 ^ j" by simp
  with yc(1) have "1 / a \<le> 2 ^ j" by (rule order_trans)
  then have low: "1 / 2 ^ j \<le> a" using assms by (simp add: field_simps)
  have j1: "0 < j" unfolding j_def using c2 by (subst bit_length.simps) simp
  have "2 ^ (j - 1) \<le> c - 1" unfolding j_def using c2 by (intro bit_length_lower) simp
  then have "(of_nat (2 ^ (j - 1)) :: rat) \<le> of_nat (c - 1)" by (simp only: of_nat_le_iff)
  then have "(2::rat) ^ (j - 1) \<le> of_nat c - 1" using c2 by (simp add: of_nat_diff)
  then have "2 ^ (j - 1) < 1 / a" using yc(2) by (rule le_less_trans)
  then have up: "a < 1 / 2 ^ (j - 1)" using assms by (simp add: field_simps)
  have e1: "(2::rat) powi (- int j) = 1 / 2 ^ j" by (simp add: power_int_minus field_simps)
  have "- int j + 1 = - int (j - 1)" using j1 by simp
  then have "(2::rat) powi (- int j + 1) = 2 powi (- int (j - 1))" by (simp only:)
  also have "\<dots> = 1 / 2 ^ (j - 1)" by (simp add: power_int_minus field_simps)
  finally have e2: "(2::rat) powi (- int j + 1) = 1 / 2 ^ (j - 1)" .
  show ?thesis unfolding fl e1 e2 using low up by simp
qed

lemmas run_defs = getToken_def saveToken_def existsSync_def readFileSync_def mkdirSync_def
  writeFileSync_def missing_def not_dir_error_def ancestors.simps Date_now_def clock_def
  time_value_at.rep_eq emit_def js_gt_def js_to_number_def js_mul.simps js_add.simps round_to_double_numeral
  TokenData_def TokenObject_def createUnifiedClient_def initSDKWithApiKey_def
  initSDKWithPrivateKey_def initSDK_def loginWithSIWE_def siweMessageParams_def startsWith_def
  slice_def DEFAULT_API_URI_def SDK_VERSION_def setJwtToken_def sepolia_def Let_def

lemma clock_range: "\<bar>clock w k\<bar> \<le> 8640000000000000"
  using ms[of "readings w k"] by (simp add: clock_def abs_le_iff)

lemma clock_update [simp]:
  "clock (w\<lparr>trace := t\<rparr>) k = clock w k"
  "clock (w\<lparr>ticks := n\<rparr>) k = clock w k"
  "clock (w\<lparr>nodes := m\<rparr>) k = clock w k"
  "clock (emit e w) k = clock w k"
  by (simp_all add: clock_def emit_def)

lemma expiry_exact:
  assumes "\<bar>ttl * 1000\<bar> < 2 ^ 53" and "\<bar>now + ttl * 1000\<bar> < 2 ^ 53"
  shows "js_add (Finite (of_int now)) (js_mul (Finite (of_int ttl)) (Finite 1000))
           = Finite (of_int (now + ttl * 1000))"
proof -
  have "js_mul (Finite (of_int ttl)) (Finite 1000) = round_to_double (of_int (ttl * 1000))"
    by (simp add: js_mul.simps)
  also have "\<dots> = Finite (of_int (ttl * 1000))"
    using assms(1) by (rule round_to_double_int)
  finally have "js_add (Finite (of_int now)) (js_mul (Finite (of_int ttl)) (Finite 1000))
      = round_to_double (of_int (now + ttl * 1000))"
    by (simp add: js_add.simps)
  also have "\<dots> = Finite (of_int (now + ttl * 1000))"
    using assms(2) by (rule round_to_double_int)
  finally show ?thesis .
qed

lemma expiry_30_days:
  "js_add (Finite (of_int (clock w k))) (js_mul (Finite 2592000) (Finite 1000))
     = Finite (of_int (clock w k + 2592000000))"
proof -
  have "\<bar>clock w k + 2592000 * 1000\<bar> < 2 ^ 53"
    using clock_range[of w k] by simp
  then show ?thesis
    using expiry_exact[of 2592000 "clock w k"] by simp
qed

lemma TokenObject_Finite: "TokenObject token (Finite (of_int n)) = TokenData token n"
  by (simp add: TokenObject_def TokenData_def)

lemma TokenObject_30_days:
  "TokenObject token
     (js_add (Finite (of_int (clock w k))) (js_mul (Finite 2592000) (Finite 1000)))
     = TokenData token (clock w k + 2592000000)"
  by (simp only: expiry_30_days TokenObject_Finite)

lemma getToken_world:
  "getToken h w = (res, w') \<Longrightarrow>
     nodes w' = nodes w \<and> trace w' = trace w \<and> readings w' = readings w
       \<and> write_fault w' = write_fault w"
  by (auto simp: getToken_def Date_now_def Let_def split: if_splits sum.splits prod.splits)

lemma make_dirs_fields:
  "trace (make_dirs ds w) = trace w @ map MadeDir ds"
  "readings (make_dirs ds w) = readings w"
  "ticks (make_dirs ds w) = ticks w"
  "write_fault (make_dirs ds w) = write_fault w"
  by (induction ds arbitrary: w) (simp_all add: emit_def)

lemma make_dirs_nodes:
  "nodes (make_dirs ds w) x = (if x \<in> set ds then Some Dir else nodes w x)"
  by (induction ds arbitrary: w) (auto simp: emit_def)

lemma ancestors_parent:
  "path_dirname h p = d \<Longrightarrow> length d < length p \<Longrightarrow> ancestors h p = d # ancestors h d"
  by (subst ancestors.simps) (auto simp: Let_def)

lemma mkdirSync_cases:
  assumes "mkdirSync h p w = (res, w')"
  obtains (made) "res = Inr ()" "nodes w p = None" "w' = make_dirs (missing h w p) w"
            "\<forall>a \<in> set (ancestors h p). nodes w a = None \<or> nodes w a = Some Dir"
        | (there) "res = Inr ()" "nodes w p = Some Dir" "w' = w"
        | (failed) e where "res = Inl e" "w' = w"
proof (cases "nodes w p")
  case None
  show ?thesis
  proof (cases "List.find (\<lambda>a. nodes w a \<noteq> None \<and> nodes w a \<noteq> Some Dir) (rev (ancestors h p))")
    case no: None
    then have "\<forall>a \<in> set (ancestors h p). nodes w a = None \<or> nodes w a = Some Dir"
      by (auto simp: find_None_iff)
    moreover from None no assms have "res = Inr ()" "w' = make_dirs (missing h w p) w"
      by (simp_all add: mkdirSync_def)
    ultimately show ?thesis using None made by blast
  next
    case (Some a)
    with None assms have "res = Inl (not_dir_error (nodes w a))" "w' = w"
      by (auto simp: mkdirSync_def)
    then show ?thesis by (rule failed)
  qed
next
  case (Some n)
  show ?thesis
  proof (cases n)
    case Dir
    with Some assms have "res = Inr ()" "w' = w" by (auto simp: mkdirSync_def)
    with Some Dir show ?thesis using there by blast
  next
    case (File s)
    with Some assms have "res = Inl (SystemError ''EEXIST'')" "w' = w"
      by (auto simp: mkdirSync_def)
    then show ?thesis by (rule failed)
  next
    case NoAccess
    with Some assms have "res = Inl (SystemError ''EACCES'')" "w' = w"
      by (auto simp: mkdirSync_def)
    then show ?thesis by (rule failed)
  qed
qed

lemma writeFileSync_cases:
  assumes "writeFileSync h p s w = (res, w')"
  obtains (wrote) "res = Inr ()" "w' = emit (Wrote p s) (w\<lparr>nodes := (nodes w)(p \<mapsto> File s)\<rparr>)"
            "\<forall>a \<in> set (ancestors h p). nodes w a = Some Dir" "write_fault w p = None"
        | (faulted) e n where "res = Inl e"
            "w' = emit (Wrote p (take n s)) (w\<lparr>nodes := (nodes w)(p \<mapsto> File (take n s))\<rparr>)"
        | (refused) e where "res = Inl e" "w' = w"
proof (cases "List.find (\<lambda>a. nodes w a \<noteq> Some Dir) (rev (ancestors h p))")
  case (Some a)
  with assms have "res = Inl (not_dir_error (nodes w a))" "w' = w"
    by (auto simp: writeFileSync_def)
  then show ?thesis by (rule refused)
next
  case None
  then have dirs: "\<forall>a \<in> set (ancestors h p). nodes w a = Some Dir"
    by (auto simp: find_None_iff)
  have blocked: "nodes w p = Some Dir \<or> nodes w p = Some NoAccess \<Longrightarrow> thesis"
  proof -
    assume "nodes w p = Some Dir \<or> nodes w p = Some NoAccess"
    with None assms have "\<exists>e. res = Inl e" "w' = w"
      by (auto simp: writeFileSync_def)
    then show thesis using refused by blast
  qed
  have opened: "nodes w p = None \<or> (\<exists>old. nodes w p = Some (File old)) \<Longrightarrow> thesis"
  proof -
    assume free: "nodes w p = None \<or> (\<exists>old. nodes w p = Some (File old))"
    show thesis
    proof (cases "write_fault w p")
      case sound: None
      with None free assms
      have "res = Inr ()" "w' = emit (Wrote p s) (w\<lparr>nodes := (nodes w)(p \<mapsto> File s)\<rparr>)"
        by (auto simp: writeFileSync_def)
      with dirs sound show thesis using wrote by blast
    next
      case (Some n)
      with None free assms
      have "res = Inl (SystemError ''EIO'')"
        "w' = emit (Wrote p (take n s)) (w\<lparr>nodes := (nodes w)(p \<mapsto> File (take n s))\<rparr>)"
        by (auto simp: writeFileSync_def)
      then show thesis by (rule faulted)
    qed
  qed
  show ?thesis
  proof (cases "nodes w p")
    case absent: None
    then show ?thesis using opened by blast
  next
    case (Some n)
    then show ?thesis using opened blocked by (cases n) auto
  qed
qed

lemma saveToken_cases:
  assumes "saveToken h token ttl w = (res, w')"
  obtains (ok) pre where "res = Inr ()"
        "pre = [] \<or> pre = map MadeDir (missing h w (TOKEN_DIR h))"
        "trace w' = trace w @ pre @
           [Wrote (TOKEN_FILE h)
              (JSON_stringify h (TokenObject token (js_add (Finite (of_int (clock w (ticks w)))) (js_mul ttl (Finite 1000)))))]"
        "nodes w' (TOKEN_FILE h) =
           Some (File (JSON_stringify h
                  (TokenObject token (js_add (Finite (of_int (clock w (ticks w)))) (js_mul ttl (Finite 1000))))))"
        "readings w' = readings w" "ticks w' = Suc (ticks w)"
    | (failed) e evs where "res = Inl e" "trace w' = trace w @ evs"
        "\<forall>ev \<in> set evs. \<forall>c. ev \<noteq> Call c" "readings w' = readings w"
proof -
  let ?s = "JSON_stringify h (TokenObject token (js_add (Finite (of_int (clock w (ticks w)))) (js_mul ttl (Finite 1000))))"
  obtain r1 w1 where mk:
    "(if \<not> existsSync w (TOKEN_DIR h) then mkdirSync h (TOKEN_DIR h) w else (Inr (), w)) = (r1, w1)"
    by (cases "(if \<not> existsSync w (TOKEN_DIR h) then mkdirSync h (TOKEN_DIR h) w else (Inr (), w))")
  have w1: "(\<exists>e. r1 = Inl e \<and> w1 = w) \<or>
            (r1 = Inr () \<and> (w1 = w \<or> w1 = make_dirs (missing h w (TOKEN_DIR h)) w))"
  proof (cases "existsSync w (TOKEN_DIR h)")
    case True
    with mk show ?thesis by simp
  next
    case False
    with mk have "mkdirSync h (TOKEN_DIR h) w = (r1, w1)" by simp
    then show ?thesis by (cases rule: mkdirSync_cases) auto
  qed
  show ?thesis
  proof (cases r1)
    case (Inl e)
    with w1 have "w1 = w" by auto
    with Inl mk assms have "res = Inl e" "w' = w" by (auto simp: saveToken_def)
    then show ?thesis using failed[of e "[]"] by simp
  next
    case (Inr u)
    with w1 have pre: "trace w1 = trace w
          \<or> trace w1 = trace w @ map MadeDir (missing h w (TOKEN_DIR h))"
      and ck: "readings w1 = readings w" "ticks w1 = ticks w"
      by (auto simp: make_dirs_fields)
    from ck have now: "clock w1 (ticks w1) = clock w (ticks w)" by (simp add: clock_def)
    from Inr mk assms now
    have wr: "writeFileSync h (TOKEN_FILE h) ?s (w1\<lparr>ticks := Suc (ticks w1)\<rparr>) = (res, w')"
      by (simp add: saveToken_def Date_now_def)
    then show ?thesis
    proof (cases rule: writeFileSync_cases)
      case wrote
      then show ?thesis
        using pre ck ok[of "[]"] ok[of "map MadeDir (missing h w (TOKEN_DIR h))"]
        by (auto simp: emit_def)
    next
      case (faulted e n)
      from pre show ?thesis
      proof
        assume "trace w1 = trace w"
        with faulted ck show ?thesis
          using failed[of e "[Wrote (TOKEN_FILE h) (take n ?s)]"] by (simp add: emit_def)
      next
        assume "trace w1 = trace w @ map MadeDir (missing h w (TOKEN_DIR h))"
        with faulted ck show ?thesis
          using failed[of e "map MadeDir (missing h w (TOKEN_DIR h))
                               @ [Wrote (TOKEN_FILE h) (take n ?s)]"]
          by (auto simp: emit_def)
      qed
    next
      case (refused e)
      from pre show ?thesis
      proof
        assume "trace w1 = trace w"
        with refused ck show ?thesis using failed[of e "[]"] by simp
      next
        assume "trace w1 = trace w @ map MadeDir (missing h w (TOKEN_DIR h))"
        with refused ck show ?thesis
          using failed[of e "map MadeDir (missing h w (TOKEN_DIR h))"] by auto
      qed
    qed
  qed
qed

lemma loginWithSIWE_cases:
  assumes "loginWithSIWE h r env m w = (res, w')"
  obtains
    (nonce_failed) e where
      "requestNonce r m (address (uc_account (getSigner m))) = Inl e"
      "res = Inl e"
      "w' = emit (Call (RequestNonce (address (uc_account (getSigner m))))) w"
  | (url_failed) e nonce where
      "requestNonce r m (address (uc_account (getSigner m))) = Inr nonce"
      "URL_hostname h (or_default (API_URI env) DEFAULT_API_URI) = Inl e"
      "res = Inl e"
      "w' = emit (Call (RequestNonce (address (uc_account (getSigner m))))) w"
  | (sign_failed) e nonce domain p where
      "requestNonce r m (address (uc_account (getSigner m))) = Inr nonce"
      "URL_hostname h (or_default (API_URI env) DEFAULT_API_URI) = Inr domain"
      "p = siweMessageParams domain (address (uc_account (getSigner m)))
             (or_default (API_URI env) DEFAULT_API_URI) nonce (clock w (ticks w))"
      "signSiWeMessage r m p = Inl e"
      "res = Inl e"
      "w' = emit (Call (SignSiWeMessage p))
              (emit (Call (RequestNonce (address (uc_account (getSigner m))))) w
                 \<lparr>ticks := Suc (ticks w)\<rparr>)"
  | (auth_failed) e nonce domain p msg sg where
      "requestNonce r m (address (uc_account (getSigner m))) = Inr nonce"
      "URL_hostname h (or_default (API_URI env) DEFAULT_API_URI) = Inr domain"
      "p = siweMessageParams domain (address (uc_account (getSigner m)))
             (or_default (API_URI env) DEFAULT_API_URI) nonce (clock w (ticks w))"
      "signSiWeMessage r m p = Inr (msg, sg)"
      "authenticateSiWe r m msg sg = Inl e"
      "res = Inl e"
      "w' = emit (Call (AuthenticateSiWe msg sg)) (emit (Call (SignSiWeMessage p))
              (emit (Call (RequestNonce (address (uc_account (getSigner m))))) w
                 \<lparr>ticks := Suc (ticks w)\<rparr>))"
  | (saving) nonce domain p msg sg token r5 where
      "requestNonce r m (address (uc_account (getSigner m))) = Inr nonce"
      "URL_hostname h (or_default (API_URI env) DEFAULT_API_URI) = Inr domain"
      "p = siweMessageParams domain (address (uc_account (getSigner m)))
             (or_default (API_URI env) DEFAULT_API_URI) nonce (clock w (ticks w))"
      "signSiWeMessage r m p = Inr (msg, sg)"
      "authenticateSiWe r m msg sg = Inr token"
      "saveToken h token (Finite 2592000)
         (emit (Call (AuthenticateSiWe msg sg)) (emit (Call (SignSiWeMessage p))
              (emit (Call (RequestNonce (address (uc_account (getSigner m))))) w
                 \<lparr>ticks := Suc (ticks w)\<rparr>))) = (r5, w')"
      "res = (case r5 of Inl e \<Rightarrow> Inl e | Inr u \<Rightarrow> Inr token)"
proof -
  let ?addr = "address (uc_account (getSigner m))"
  let ?uri = "or_default (API_URI env) DEFAULT_API_URI"
  show thesis
  proof (cases "requestNonce r m ?addr")
    case (Inl e)
    with assms have "res = Inl e" "w' = emit (Call (RequestNonce ?addr)) w"
      by (auto simp: loginWithSIWE_def Let_def)
    with Inl show thesis by (rule nonce_failed)
  next
    case nonce: (Inr nonce)
    show thesis
    proof (cases "URL_hostname h ?uri")
      case (Inl e)
      with nonce assms have "res = Inl e" "w' = emit (Call (RequestNonce ?addr)) w"
        by (auto simp: loginWithSIWE_def Let_def)
      with nonce Inl show thesis by (rule url_failed)
    next
      case domain: (Inr domain)
      define p where "p = siweMessageParams domain ?addr ?uri nonce (clock w (ticks w))"
      define w3 where "w3 = emit (Call (SignSiWeMessage p))
              (emit (Call (RequestNonce ?addr)) w\<lparr>ticks := Suc (ticks w)\<rparr>)"
      note defs = loginWithSIWE_def Let_def Date_now_def p_def w3_def emit_def
      show thesis
      proof (cases "signSiWeMessage r m p")
        case (Inl e)
        with nonce domain assms have "res = Inl e" "w' = w3" by (auto simp: defs)
        with nonce domain Inl show thesis unfolding w3_def using p_def by (intro sign_failed)
      next
        case (Inr ms)
        obtain msg sg where ms: "ms = (msg, sg)" by (cases ms)
        note sign = Inr[unfolded ms]
        show thesis
        proof (cases "authenticateSiWe r m msg sg")
          case (Inl e)
          with nonce domain sign assms
          have "res = Inl e" "w' = emit (Call (AuthenticateSiWe msg sg)) w3" by (auto simp: defs)
          with nonce domain sign Inl show thesis unfolding w3_def using p_def
            by (intro auth_failed)
        next
          case token: (Inr token)
          obtain r5 w5 where sv:
            "saveToken h token (Finite 2592000) (emit (Call (AuthenticateSiWe msg sg)) w3) = (r5, w5)"
            by (cases "saveToken h token (Finite 2592000) (emit (Call (AuthenticateSiWe msg sg)) w3)")
          with nonce domain sign token assms
          have "w' = w5" "res = (case r5 of Inl e \<Rightarrow> Inl e | Inr u \<Rightarrow> Inr token)"
            by (auto simp: defs split: sum.splits)
          with nonce domain sign token sv show thesis unfolding w3_def using p_def
            by (intro saving) auto
        qed
      qed
    qed
  qed
qed

lemma truthy_get_prop: "truthy d \<Longrightarrow> \<exists>t. get_prop d k = Inr t"
  by (cases d) simp_all

lemma present_or_default: "present x \<Longrightarrow> x = Some (or_default x []) \<and> or_default x [] \<noteq> []"
  by (cases x) simp_all

lemma initSDKWithPrivateKey_world:
  assumes "initSDKWithPrivateKey h k a u w = (res, w')"
  shows "nodes w' = nodes w \<and>
         (trace w' = trace w \<or> trace w' = trace w @ [ConsoleLog ''Using existing token''])"
proof -
  obtain tok w1 where g: "getToken h w = (tok, w1)" by (cases "getToken h w")
  from getToken_world[OF g] have w1: "nodes w1 = nodes w" "trace w1 = trace w" by simp_all
  from assms g w1 show ?thesis
    by (auto simp: initSDKWithPrivateKey_def emit_def Let_def
        split: if_splits sum.splits option.splits)
qed

lemma initSDK_world:
  assumes "initSDK h env w = (res, w')"
  shows "nodes w' = nodes w \<and>
         (trace w' = trace w \<or> trace w' = trace w @ [ConsoleLog ''Using existing token''])"
proof -
  obtain r1 w1 where p: "initSDKWithPrivateKey h (or_default (PRIVATE_KEY env) [])
      (or_default (API_KEY env) []) (or_default (API_URI env) DEFAULT_API_URI) w = (r1, w1)"
    by (cases "initSDKWithPrivateKey h (or_default (PRIVATE_KEY env) [])
      (or_default (API_KEY env) []) (or_default (API_URI env) DEFAULT_API_URI) w")
  from initSDKWithPrivateKey_world[OF p] assms p show ?thesis
    by (auto simp: initSDK_def Let_def split: if_splits sum.splits)
qed

lemma initSDKWithPrivateKey_succeeds:
  assumes "\<forall>k. \<exists>a. privateKeyToAccount h k = Inr a"
      and "\<forall>opts. \<exists>m. MeshSDK_init h opts = Inr m"
      and "k \<noteq> []"
  shows "\<exists>m. fst (initSDKWithPrivateKey h k a u w) = Inr m"
proof -
  obtain acc where acc: "privateKeyToAccount h
      (''0x'' @ (if startsWith k ''0x'' then slice k 2 else k)) = Inr acc"
    using assms(1) by blast
  then obtain uc where uc: "createUnifiedClient h k sepolia = Inr uc"
    by (simp add: createUnifiedClient_def Let_def)
  obtain m where m: "MeshSDK_init h \<lparr>apiUri = u, apiKey = a, version = SDK_VERSION, signer = uc\<rparr> = Inr m"
    using assms(2) by blast
  obtain tok w1 where g: "getToken h w = (tok, w1)" by (cases "getToken h w")
  show ?thesis
  proof (cases tok)
    case None
    with uc m g assms(3) show ?thesis by (simp add: initSDKWithPrivateKey_def)
  next
    case (Some d)
    show ?thesis
    proof (cases "truthy d")
      case True
      then obtain t where "get_prop d ''token'' = Inr t" using truthy_get_prop by blast
      with True Some uc m g assms(3) show ?thesis by (simp add: initSDKWithPrivateKey_def Let_def)
    next
      case False
      with Some uc m g assms(3) show ?thesis by (simp add: initSDKWithPrivateKey_def)
    qed
  qed
qed

lemma saveResponse_trace:
  assumes "saveResponse h out response w = (res, w')"
  shows "set (trace w) \<subseteq> set (trace w')"
proof (cases "given out")
  case False
  with assms show ?thesis by (simp add: saveResponse_def)
next
  case True
  let ?d = "path_dirname h (outPath out)"
  obtain r1 w1 where mk:
    "(if \<not> existsSync w ?d then mkdirSync h ?d w else (Inr (), w)) = (r1, w1)"
    by (cases "(if \<not> existsSync w ?d then mkdirSync h ?d w else (Inr (), w))")
  have t1: "set (trace w) \<subseteq> set (trace w1)"
  proof (cases "existsSync w ?d")
    case True
    with mk show ?thesis by simp
  next
    case False
    with mk have "mkdirSync h ?d w = (r1, w1)" by simp
    then show ?thesis by (cases rule: mkdirSync_cases) (auto simp: make_dirs_fields)
  qed
  show ?thesis
  proof (cases r1)
    case (Inl e)
    with True mk assms t1 show ?thesis by (auto simp: saveResponse_def Let_def)
  next
    case (Inr u)
    obtain r2 w2 where wr:
      "writeFileSync h (outPath out) (JSON_stringify_pretty h response) w1 = (r2, w2)"
      by (cases "writeFileSync h (outPath out) (JSON_stringify_pretty h response) w1")
    then have t2: "set (trace w1) \<subseteq> set (trace w2)"
      by (cases rule: writeFileSync_cases) (auto simp: emit_def)
    from True mk Inr wr assms t1 t2 show ?thesis
      by (auto simp: saveResponse_def Let_def emit_def split: sum.splits)
  qed
qed

lemma requestData_file:
  assumes "f \<noteq> []" "nodes w f = Some (File text)" "JSON_parse h text = Inr v"
  shows "requestData h \<lparr>opt_file = Some f, opt_json = oj, opt_outfile = out\<rparr> (emit e w) = Inr v"
  using assms by (simp add: requestData_def readFileSync_def emit_def)

lemma requestData_json:
  assumes "j \<noteq> []" "JSON_parse h j = Inr v"
  shows "requestData h \<lparr>opt_file = None, opt_json = Some j, opt_outfile = out\<rparr> w = Inr v"
  using assms by (simp add: requestData_def)

lemma authorize_action_sends:
  assumes "requestData h options (emit (SpinnerStart ''Validating authorization...'') w) = Inr v"
      and "initSDK h env (emit (SpinnerStart ''Validating authorization...'') w) = (Inr sdk, w1)"
  shows "Call (ValidateAuthorization v) \<in> set (trace (authorize_action h r env options w))"
proof (cases "validateAuthorization r sdk v")
  case (Inl e)
  with assms show ?thesis
    by (simp add: authorize_action_def Let_def report_failure_def emit_def)
next
  case (Inr response)
  define w5 where "w5 = emit (ConsoleLog (JSON_stringify_pretty h response))
     (emit (ConsoleLog (nl @ ''Authorization Response:''))
       (emit (SpinnerSucceed ''Authorization validated'')
         (emit (Call (ValidateAuthorization v)) w1)))"
  obtain r6 w6 where sv: "saveResponse h (opt_outfile options) response w5 = (r6, w6)"
    by (cases "saveResponse h (opt_outfile options) response w5")
  have "Call (ValidateAuthorization v) \<in> set (trace w5)" by (simp add: w5_def emit_def)
  with saveResponse_trace[OF sv] have "Call (ValidateAuthorization v) \<in> set (trace w6)" by blast
  with assms Inr sv show ?thesis
    by (auto simp: authorize_action_def Let_def report_failure_def emit_def w5_def
        split: sum.splits)
qed

lemma authorize_batch_action_sends:
  assumes "requestData h options (emit (SpinnerStart ''Validating batch authorization...'') w) = Inr v"
      and "initSDK h env (emit (SpinnerStart ''Validating batch authorization...'') w) = (Inr sdk, w1)"
  shows "Call (ValidateAuthorizations v) \<in> set (trace (authorize_batch_action h r env options w))"
proof (cases "validateAuthorizations r sdk v")
  case (Inl e)
  with assms show ?thesis
    by (simp add: authorize_batch_action_def Let_def report_failure_def emit_def)
next
  case (Inr response)
  define w5 where "w5 = emit (ConsoleLog (JSON_stringify_pretty h response))
     (emit (ConsoleLog (nl @ ''Batch Authorization Response:''))
       (emit (SpinnerSucceed ''Batch authorization validated'')
         (emit (Call (ValidateAuthorizations v)) w1)))"
  obtain r6 w6 where sv: "saveResponse h (opt_outfile options) response w5 = (r6, w6)"
    by (cases "saveResponse h (opt_outfile options) response w5")
  have "Call (ValidateAuthorizations v) \<in> set (trace w5)" by (simp add: w5_def emit_def)
  with saveResponse_trace[OF sv] have "Call (ValidateAuthorizations v) \<in> set (trace w6)" by blast
  with assms Inr sv show ?thesis
    by (auto simp: authorize_batch_action_def Let_def report_failure_def emit_def w5_def
        split: sum.splits)
qed

lemma authorize_action_options:
  assumes "requestData h o1 (emit (SpinnerStart ''Validating authorization...'') w)
             = requestData h o2 (emit (SpinnerStart ''Validating authorization...'') w)"
      and "opt_outfile o1 = opt_outfile o2"
  shows "authorize_action h r env o1 w = authorize_action h r env o2 w"
  unfolding authorize_action_def Let_def assms ..

lemma authorize_batch_action_options:
  assumes "requestData h o1 (emit (SpinnerStart ''Validating batch authorization...'') w)
             = requestData h o2 (emit (SpinnerStart ''Validating batch authorization...'') w)"
      and "opt_outfile o1 = opt_outfile o2"
  shows "authorize_batch_action h r env o1 w = authorize_batch_action h r env o2 w"
  unfolding authorize_batch_action_def Let_def assms ..

lemma set_missing:
  "set (missing h w p) = insert p {a \<in> set (ancestors h p). nodes w a = None}"
  by (auto simp: missing_def)

lemma saveToken_succeeds:
  assumes parent: "path_dirname h (TOKEN_FILE h) = TOKEN_DIR h"
      and shorter: "length (TOKEN_DIR h) < length (TOKEN_FILE h)"
      and apart: "TOKEN_FILE h \<notin> set (ancestors h (TOKEN_DIR h))"
      and dir: "nodes w (TOKEN_DIR h) = None \<or> nodes w (TOKEN_DIR h) = Some Dir"
      and above: "\<forall>a \<in> set (ancestors h (TOKEN_DIR h)).
                    nodes w a = Some Dir \<or> (nodes w a = None \<and> nodes w (TOKEN_DIR h) = None)"
      and held: "nodes w (TOKEN_FILE h) = None \<or> nodes w (TOKEN_FILE h) = Some (File old)"
      and sound: "write_fault w (TOKEN_FILE h) = None"
  shows "fst (saveToken h token ttl w) = Inr ()"
    and "nodes (snd (saveToken h token ttl w)) =
           (\<lambda>x. if x = TOKEN_FILE h
                then Some (File (JSON_stringify h
                        (TokenObject token (js_add (Finite (of_int (clock w (ticks w)))) (js_mul ttl (Finite 1000))))))
                else if x \<in> set (TOKEN_DIR h # ancestors h (TOKEN_DIR h)) then Some Dir
                else nodes w x)"
proof -
  let ?TD = "TOKEN_DIR h" and ?TF = "TOKEN_FILE h"
  let ?s = "JSON_stringify h (TokenObject token (js_add (Finite (of_int (clock w (ticks w)))) (js_mul ttl (Finite 1000))))"
  have anc: "ancestors h ?TF = ?TD # ancestors h ?TD"
    using parent shorter by (rule ancestors_parent)
  have ne: "?TF \<noteq> ?TD" using shorter by auto
  define w1 where "w1 = (if nodes w ?TD = None then make_dirs (missing h w ?TD) w else w)"
  have mk: "(if \<not> existsSync w ?TD then mkdirSync h ?TD w else (Inr (), w)) = (Inr (), w1)"
  proof (cases "nodes w ?TD")
    case None
    have "\<not> (\<exists>a. a \<in> set (rev (ancestors h ?TD)) \<and> nodes w a \<noteq> None \<and> nodes w a \<noteq> Some Dir)"
      using above by auto
    then have "List.find (\<lambda>a. nodes w a \<noteq> None \<and> nodes w a \<noteq> Some Dir) (rev (ancestors h ?TD)) = None"
      by (simp add: find_None_iff)
    with None show ?thesis by (simp add: existsSync_def mkdirSync_def w1_def)
  next
    case (Some n)
    with dir show ?thesis by (simp add: existsSync_def w1_def)
  qed
  have n1: "nodes w1 x = (if x \<in> set (?TD # ancestors h ?TD) then Some Dir else nodes w x)" for x
  proof (cases "nodes w ?TD")
    case None
    with above show ?thesis
      by (auto simp: w1_def make_dirs_nodes set_missing)
  next
    case (Some n)
    with dir above show ?thesis by (auto simp: w1_def)
  qed
  have f1: "readings w1 = readings w" "ticks w1 = ticks w" "write_fault w1 = write_fault w"
    by (simp_all add: w1_def make_dirs_fields)
  then have now: "clock w1 (ticks w1) = clock w (ticks w)" by (simp add: clock_def)
  have "\<not> (\<exists>a. a \<in> set (rev (ancestors h ?TF)) \<and> nodes w1 a \<noteq> Some Dir)"
    by (simp add: anc n1)
  then have open_ok: "List.find (\<lambda>a. nodes (w1\<lparr>ticks := Suc (ticks w1)\<rparr>) a \<noteq> Some Dir)
                        (rev (ancestors h ?TF)) = None"
    by (simp add: find_None_iff)
  have tf: "nodes w1 ?TF = nodes w ?TF" using ne apart by (simp add: n1)
  have wr: "writeFileSync h ?TF ?s (w1\<lparr>ticks := Suc (ticks w1)\<rparr>)
      = (Inr (), emit (Wrote ?TF ?s) (w1\<lparr>ticks := Suc (ticks w1), nodes := (nodes w1)(?TF \<mapsto> File ?s)\<rparr>))"
    using held sound tf f1 open_ok
    by (auto simp: writeFileSync_def)
  have run: "saveToken h token ttl w
      = (Inr (), emit (Wrote ?TF ?s) (w1\<lparr>ticks := Suc (ticks w1), nodes := (nodes w1)(?TF \<mapsto> File ?s)\<rparr>))"
    using mk wr now by (simp add: saveToken_def Date_now_def)
  show "fst (saveToken h token ttl w) = Inr ()" by (simp add: run)
  show "nodes (snd (saveToken h token ttl w)) =
           (\<lambda>x. if x = ?TF then Some (File ?s)
                else if x \<in> set (?TD # ancestors h ?TD) then Some Dir
                else nodes w x)"
    by (rule ext) (simp add: run emit_def n1)
qed


section \<open>The credential cache\<close>

text \<open>
  C1: when the credential file holds a text that parses as a \<open>{ token, expiresAt }\<close>
  pair, \<open>getToken\<close> returns the stored pair if and only if \<open>expiresAt\<close> is strictly greater
  than the time read from the clock, and returns \<open>null\<close> if and only if \<open>expiresAt\<close> is at
  or before it.
\<close>

theorem getToken_valid_iff_unexpired:
  assumes "nodes w (TOKEN_FILE h) = Some (File text)"
      and "JSON_parse h text = Inr d"
      and "is_TokenData d"
      and "get_prop d ''expiresAt'' = Inr (JNum e)"
  shows "(fst (getToken h w) = Some d \<longleftrightarrow> e > clock w (ticks w))
       \<and> (fst (getToken h w) = None \<longleftrightarrow> e \<le> clock w (ticks w))"
  using assms
  by (simp add: getToken_def existsSync_def readFileSync_def Date_now_def js_gt_def
      js_to_number_def)

theorem getToken_valid_iff_unexpired_witness:
  \<open>fst (getToken example_host (world_with (File ''{"token":"jwt-1","expiresAt":2592001001}'')))
     = Some (TokenData ''jwt-1'' 2592001001)
   \<and> fst (getToken example_host
        ((world_with (File ''{"token":"jwt-1","expiresAt":2592001001}''))\<lparr>readings := \<lambda>k. time_value_at 2592001001\<rparr>))
     = None\<close>
proof -
  let ?text = \<open>''{"token":"jwt-1","expiresAt":2592001001}''\<close>
  let ?w = "world_with (File ?text)"
  let ?late = "?w\<lparr>readings := \<lambda>k. time_value_at 2592001001\<rparr>"
  have held: "nodes ?w (TOKEN_FILE example_host) = Some (File ?text)"
    "nodes ?late (TOKEN_FILE example_host) = Some (File ?text)"
    by (simp_all add: example_defs)
  have parsed: "JSON_parse example_host ?text = Inr (TokenData ''jwt-1'' 2592001001)"
    by (simp add: example_defs)
  have shape: "is_TokenData (TokenData ''jwt-1'' 2592001001)"
    by (simp add: is_TokenData_def TokenData_def)
  have expiry: "get_prop (TokenData ''jwt-1'' 2592001001) ''expiresAt'' = Inr (JNum 2592001001)"
    by (simp add: TokenData_def)
  have "clock ?w (ticks ?w) < 2592001001" "2592001001 \<le> clock ?late (ticks ?late)"
    by (simp_all add: example_defs clock_def time_value_at.rep_eq)
  with getToken_valid_iff_unexpired[OF held(1) parsed shape expiry]
    getToken_valid_iff_unexpired[OF held(2) parsed shape expiry]
  show ?thesis by simp
qed

text \<open>
  C3, as amended: \<open>saveToken\<close> stores \<open>{ token, expiresAt }\<close> with \<open>expiresAt\<close> the time read
  from the clock plus \<open>ttl * 1000\<close>, computed in doubles, for every number \<open>ttl\<close>. For an
  integral \<open>ttl\<close> the result is that sum exactly when \<open>ttl * 1000\<close> and the sum are below
  \<open>2 ^ 53\<close> in magnitude, as they are for \<open>ttl = 2592000\<close>, where the expiry is the time of
  the save plus 2592000000. Where the directory is absent it is created, with the
  directories missing above it, and whatever text the file held before is replaced;
  nothing else in the file system changes. The file system must let the save through:
  the directory is absent or a directory, what is above it is a directory or absent with
  it, the file is absent or a file, and the device does not fail the write.
\<close>

theorem saveToken_writes_expiry:
  assumes parent: "path_dirname h (TOKEN_FILE h) = TOKEN_DIR h"
      and shorter: "length (TOKEN_DIR h) < length (TOKEN_FILE h)"
      and apart: "TOKEN_FILE h \<notin> set (ancestors h (TOKEN_DIR h))"
      and dir: "nodes w (TOKEN_DIR h) = None \<or> nodes w (TOKEN_DIR h) = Some Dir"
      and above: "\<forall>a \<in> set (ancestors h (TOKEN_DIR h)).
                    nodes w a = Some Dir \<or> (nodes w a = None \<and> nodes w (TOKEN_DIR h) = None)"
      and held: "nodes w (TOKEN_FILE h) = None \<or> nodes w (TOKEN_FILE h) = Some (File old)"
      and sound: "write_fault w (TOKEN_FILE h) = None"
  shows "fst (saveToken h token ttl w) = Inr ()
       \<and> nodes (snd (saveToken h token ttl w)) (TOKEN_FILE h) =
           Some (File (JSON_stringify h
                   (TokenObject token
                      (js_add (Finite (of_int (clock w (ticks w)))) (js_mul ttl (Finite 1000))))))
       \<and> (\<forall>n. \<bar>n * 1000\<bar> < 2 ^ 53 \<and> \<bar>clock w (ticks w) + n * 1000\<bar> < 2 ^ 53 \<longrightarrow>
            nodes (snd (saveToken h token (Finite (of_int n)) w)) (TOKEN_FILE h) =
              Some (File (JSON_stringify h (TokenData token (clock w (ticks w) + n * 1000)))))
       \<and> (\<forall>a \<in> set (TOKEN_DIR h # ancestors h (TOKEN_DIR h)).
            nodes (snd (saveToken h token ttl w)) a = Some Dir)
       \<and> (\<forall>p. p \<noteq> TOKEN_FILE h \<and> p \<notin> set (TOKEN_DIR h # ancestors h (TOKEN_DIR h)) \<longrightarrow>
            nodes (snd (saveToken h token ttl w)) p = nodes w p)
       \<and> nodes (snd (saveToken h token (Finite 2592000) w)) (TOKEN_FILE h) =
           Some (File (JSON_stringify h (TokenData token (clock w (ticks w) + 2592000000))))"
proof -
  note ok = saveToken_succeeds[OF parent shorter apart dir above held sound]
  have ne: "TOKEN_FILE h \<noteq> TOKEN_DIR h" using shorter by auto
  have exact: "\<bar>n * 1000\<bar> < 2 ^ 53 \<and> \<bar>clock w (ticks w) + n * 1000\<bar> < 2 ^ 53 \<Longrightarrow>
      TokenObject token
        (js_add (Finite (of_int (clock w (ticks w)))) (js_mul (Finite (of_int n)) (Finite 1000)))
        = TokenData token (clock w (ticks w) + n * 1000)" for n
    by (simp only: expiry_exact TokenObject_Finite)
  have month: "TokenObject token
        (js_add (Finite (of_int (clock w (ticks w)))) (js_mul (Finite 2592000) (Finite 1000)))
        = TokenData token (clock w (ticks w) + 2592000000)"
    by (simp only: expiry_30_days TokenObject_Finite)
  show ?thesis
    using ne apart exact month by (auto simp: ok)
qed

theorem saveToken_writes_expiry_witness:
  \<open>fst (saveToken example_host ''jwt-1'' (Finite 2592000) (example_world\<lparr>ticks := 1\<rparr>)) = Inr ()
   \<and> nodes (example_world\<lparr>ticks := 1\<rparr>) ''/home/user/.mesh-cli'' = None
   \<and> nodes (snd (saveToken example_host ''jwt-1'' (Finite 2592000) (example_world\<lparr>ticks := 1\<rparr>)))
        ''/home/user/.mesh-cli'' = Some Dir
   \<and> nodes (snd (saveToken example_host ''jwt-1'' (Finite 2592000) (example_world\<lparr>ticks := 1\<rparr>)))
        ''/home/user/.mesh-cli/token.json'' = Some (File ''{"token":"jwt-1","expiresAt":2592001001}'')
   \<and> nodes (snd (saveToken example_host ''jwt-1'' (Finite 2592000)
                 ((world_with (File ''stale''))\<lparr>ticks := 1\<rparr>)))
        ''/home/user/.mesh-cli/token.json'' = Some (File ''{"token":"jwt-1","expiresAt":2592001001}'')
   \<and> nodes (snd (saveToken example_host ''jwt-1'' (Finite (1 / 2)) (example_world\<lparr>ticks := 1\<rparr>)))
        ''/home/user/.mesh-cli/token.json'' = Some (File ''{"token":"jwt-1","expiresAt":1501}'')
   \<and> nodes (snd (saveToken example_host ''jwt-1'' (Finite (1 / 2048)) (example_world\<lparr>ticks := 1\<rparr>)))
        ''/home/user/.mesh-cli/token.json''
       = Some (File ''{"token":"jwt-1","expiresAt":1001.48828125}'')\<close>
proof -
  let ?w = "example_world\<lparr>ticks := 1\<rparr>"
  let ?v = "(world_with (File ''stale''))\<lparr>ticks := 1\<rparr>"
  have parent: "path_dirname example_host (TOKEN_FILE example_host) = TOKEN_DIR example_host"
    and shorter: "length (TOKEN_DIR example_host) < length (TOKEN_FILE example_host)"
    by (simp_all add: example_defs)
  have up: "ancestors example_host (TOKEN_DIR example_host) = [''/home/user'', ''/home'', ''/'']"
    by (simp add: example_defs ancestors.simps)
  have apart: "TOKEN_FILE example_host \<notin> set (ancestors example_host (TOKEN_DIR example_host))"
    unfolding up by (simp add: example_defs)
  have dir: "nodes ?w (TOKEN_DIR example_host) = None \<or> nodes ?w (TOKEN_DIR example_host) = Some Dir"
    "nodes ?v (TOKEN_DIR example_host) = None \<or> nodes ?v (TOKEN_DIR example_host) = Some Dir"
    by (simp_all add: example_defs)
  have above: "\<forall>a \<in> set (ancestors example_host (TOKEN_DIR example_host)).
      nodes ?w a = Some Dir \<or> (nodes ?w a = None \<and> nodes ?w (TOKEN_DIR example_host) = None)"
    "\<forall>a \<in> set (ancestors example_host (TOKEN_DIR example_host)).
      nodes ?v a = Some Dir \<or> (nodes ?v a = None \<and> nodes ?v (TOKEN_DIR example_host) = None)"
    unfolding up by (simp_all add: example_defs)
  have held: "nodes ?w (TOKEN_FILE example_host) = None
                \<or> nodes ?w (TOKEN_FILE example_host) = Some (File ''stale'')"
    "nodes ?v (TOKEN_FILE example_host) = None
                \<or> nodes ?v (TOKEN_FILE example_host) = Some (File ''stale'')"
    by (simp_all add: example_defs)
  have sound: "write_fault ?w (TOKEN_FILE example_host) = None"
    "write_fault ?v (TOKEN_FILE example_host) = None"
    by (simp_all add: example_defs)
  have absent: "nodes ?w ''/home/user/.mesh-cli'' = None"
    by (simp add: example_defs)
  have names: "TOKEN_FILE example_host = ''/home/user/.mesh-cli/token.json''"
    "TOKEN_DIR example_host = ''/home/user/.mesh-cli''"
    by (simp_all add: example_defs)
  have now: "clock ?w (ticks ?w) = 1001" "clock ?v (ticks ?v) = 1001"
    by (simp_all add: example_defs clock_def time_value_at.rep_eq)
  have stored: \<open>JSON_stringify example_host (TokenData ''jwt-1'' 2592001001)
      = ''{"token":"jwt-1","expiresAt":2592001001}''\<close>
    by (simp add: example_defs TokenData_def)
  have half: "js_add (Finite (of_int 1001)) (js_mul (Finite (1 / 2)) (Finite 1000)) = Finite 1501"
    by (simp add: js_add.simps js_mul.simps round_to_double_numeral)
  have small: "js_add (Finite (of_int 1001)) (js_mul (Finite (1 / 2048)) (Finite 1000))
      = Finite (256381 / 256)"
    by (simp add: js_add.simps js_mul.simps round_to_double_def floor_log2_def
        round_half_even_def bit_length_numeral floor_numeral_quotient ceiling_numeral_quotient
        Let_def)
  have texts: \<open>JSON_stringify example_host (TokenObject ''jwt-1'' (Finite 1501))
      = ''{"token":"jwt-1","expiresAt":1501}''\<close>
    \<open>JSON_stringify example_host (TokenObject ''jwt-1'' (Finite (256381 / 256)))
      = ''{"token":"jwt-1","expiresAt":1001.48828125}''\<close>
    by (simp_all add: example_defs TokenObject_def TokenData_def floor_numeral_quotient)
  note fresh = saveToken_writes_expiry[OF parent shorter apart dir(1) above(1) held(1) sound(1),
      of "''jwt-1''"]
  note stale = saveToken_writes_expiry[OF parent shorter apart dir(2) above(2) held(2) sound(2),
      of "''jwt-1''"]
  have "fst (saveToken example_host ''jwt-1'' (Finite 2592000) ?w) = Inr ()"
    using fresh[of "Finite 2592000"] by (simp only:)
  moreover have "nodes (snd (saveToken example_host ''jwt-1'' (Finite 2592000) ?w))
      (TOKEN_DIR example_host) = Some Dir"
    using fresh[of "Finite 2592000"] by simp
  moreover have \<open>nodes (snd (saveToken example_host ''jwt-1'' (Finite 2592000) ?w))
      (TOKEN_FILE example_host) = Some (File ''{"token":"jwt-1","expiresAt":2592001001}'')\<close>
    using conjunct2[OF conjunct2[OF conjunct2[OF conjunct2[OF conjunct2[OF fresh[of NaN]]]]]]
    unfolding now by (simp add: stored)
  moreover have \<open>nodes (snd (saveToken example_host ''jwt-1'' (Finite 2592000) ?v))
      (TOKEN_FILE example_host) = Some (File ''{"token":"jwt-1","expiresAt":2592001001}'')\<close>
    using conjunct2[OF conjunct2[OF conjunct2[OF conjunct2[OF conjunct2[OF stale[of NaN]]]]]]
    unfolding now by (simp add: stored)
  moreover have \<open>nodes (snd (saveToken example_host ''jwt-1'' (Finite (1 / 2)) ?w))
      (TOKEN_FILE example_host) = Some (File ''{"token":"jwt-1","expiresAt":1501}'')\<close>
    using conjunct1[OF conjunct2[OF fresh[of "Finite (1 / 2)"]]]
    unfolding now half by (simp only: texts)
  moreover have \<open>nodes (snd (saveToken example_host ''jwt-1'' (Finite (1 / 2048)) ?w))
      (TOKEN_FILE example_host) = Some (File ''{"token":"jwt-1","expiresAt":1001.48828125}'')\<close>
    using conjunct1[OF conjunct2[OF fresh[of "Finite (1 / 2048)"]]]
    unfolding now small by (simp only: texts)
  ultimately show ?thesis
    using absent unfolding names by simp
qed

text \<open>
  C3 as the specification has it, that the stored expiry is the time of the save plus
  \<open>ttl * 1000\<close> for every \<open>ttl\<close>, does not hold: saved at the time 1001 with
  \<open>ttl = 9007199254740\<close>, the expiry written is 9007199254741000, and the sum is
  9007199254741001.
\<close>

theorem saveToken_rounds_expiry_counterexample:
  \<open>clock (example_world\<lparr>ticks := 1\<rparr>) (ticks (example_world\<lparr>ticks := 1\<rparr>)) = 1001
   \<and> 1001 + 9007199254740 * 1000 = (9007199254741001 :: int)
   \<and> js_add (Finite 1001) (js_mul (Finite 9007199254740) (Finite 1000)) = Finite 9007199254741000
   \<and> fst (saveToken example_host ''jwt-1'' (Finite 9007199254740) (example_world\<lparr>ticks := 1\<rparr>))
       = Inr ()
   \<and> nodes (snd (saveToken example_host ''jwt-1'' (Finite 9007199254740)
                 (example_world\<lparr>ticks := 1\<rparr>)))
        ''/home/user/.mesh-cli/token.json''
       = Some (File ''{"token":"jwt-1","expiresAt":9007199254741000}'')\<close>
proof -
  have product: "js_mul (Finite 9007199254740) (Finite 1000) = Finite 9007199254740000"
    by (simp add: js_mul.simps round_to_double_numeral)
  have "floor_log2 9007199254741001 = 53"
    by (simp add: floor_log2_def bit_length_numeral)
  then have sum: "js_add (Finite 1001) (Finite 9007199254740000) = Finite 9007199254741000"
    by (simp add: js_add.simps round_to_double_def round_half_even_def floor_numeral_quotient
        Let_def)
  have now: "clock (example_world\<lparr>ticks := 1\<rparr>) (ticks (example_world\<lparr>ticks := 1\<rparr>)) = 1001"
    by (simp add: example_defs clock_def time_value_at.rep_eq)
  have run: \<open>fst (saveToken example_host ''jwt-1'' (Finite 9007199254740) (example_world\<lparr>ticks := 1\<rparr>))
       = Inr ()
   \<and> nodes (snd (saveToken example_host ''jwt-1'' (Finite 9007199254740)
                 (example_world\<lparr>ticks := 1\<rparr>)))
        ''/home/user/.mesh-cli/token.json''
       = Some (File ''{"token":"jwt-1","expiresAt":9007199254741000}'')\<close>
    by (simp add: example_defs saveToken_def existsSync_def mkdirSync_def writeFileSync_def
        missing_def ancestors.simps Date_now_def emit_def clock_def time_value_at.rep_eq product
        sum TokenObject_def TokenData_def Let_def)
  from product sum now run show ?thesis by simp
qed

text \<open>
  C4, as amended: when the credential file cannot be read, or \<open>JSON.parse\<close> rejects its
  text, or the parsed value is \<open>null\<close>, \<open>getToken\<close> returns \<open>null\<close> and leaves the world
  as it is, which is what it does when the file is absent. For every other parsed value
  it returns that value exactly when its \<open>expiresAt\<close> property compares greater than the
  time read from the clock, whether or not the value is a \<open>{ token, expiresAt }\<close> pair;
  a value without the property gives \<open>null\<close>.
\<close>

theorem getToken_unusable_file:
  assumes "nodes w (TOKEN_FILE h) = Some n"
  shows "(n = Dir \<or> n = NoAccess \<longrightarrow> getToken h w = (None, w))
       \<and> (\<forall>text e. n = File text \<and> JSON_parse h text = Inl e \<longrightarrow> getToken h w = (None, w))
       \<and> (\<forall>text v e. n = File text \<and> JSON_parse h text = Inr v \<and> get_prop v ''expiresAt'' = Inl e
             \<longrightarrow> getToken h w = (None, w))
       \<and> (\<forall>text v x. n = File text \<and> JSON_parse h text = Inr v \<and> get_prop v ''expiresAt'' = Inr x
             \<longrightarrow> fst (getToken h w) = (if js_gt h x (clock w (ticks w)) then Some v else None))
       \<and> \<not> js_gt h JUndefined (clock w (ticks w))
       \<and> getToken h (w\<lparr>nodes := (nodes w)(TOKEN_FILE h := None)\<rparr>)
           = (None, w\<lparr>nodes := (nodes w)(TOKEN_FILE h := None)\<rparr>)"
  using assms
  by (auto simp: getToken_def existsSync_def readFileSync_def Date_now_def js_gt_def
      js_to_number_def)

theorem getToken_unusable_file_witness:
  \<open>getToken example_host (world_with Dir) = (None, world_with Dir)
   \<and> getToken example_host (world_with NoAccess) = (None, world_with NoAccess)
   \<and> getToken example_host (world_with (File ''not json'')) = (None, world_with (File ''not json''))
   \<and> getToken example_host (world_with (File ''null'')) = (None, world_with (File ''null''))
   \<and> fst (getToken example_host (world_with (File ''{"subject":"alice","action":"read"}''))) = None
   \<and> fst (getToken example_host (world_with (File ''{"expiresAt":99999999999999}'')))
       = Some (JObj [(''expiresAt'', JNum 99999999999999)])\<close>
proof -
  have held: "nodes (world_with n) (TOKEN_FILE example_host) = Some n" for n
    by (simp add: example_defs)
  have rejected: "JSON_parse example_host ''not json'' = Inl (SyntaxError ''Unexpected token'')"
    by (simp add: example_defs)
  have null: "JSON_parse example_host ''null'' = Inr JNull"
    "get_prop JNull ''expiresAt'' = Inl (TypeError ''Cannot read properties of null'')"
    by (simp_all add: example_defs)
  have request: \<open>JSON_parse example_host ''{"subject":"alice","action":"read"}''
      = Inr (JObj [(''subject'', JStr ''alice''), (''action'', JStr ''read'')])\<close>
    "get_prop (JObj [(''subject'', JStr ''alice''), (''action'', JStr ''read'')]) ''expiresAt''
      = Inr JUndefined"
    by (simp_all add: example_defs)
  have bare: \<open>JSON_parse example_host ''{"expiresAt":99999999999999}''
      = Inr (JObj [(''expiresAt'', JNum 99999999999999)])\<close>
    "get_prop (JObj [(''expiresAt'', JNum 99999999999999)]) ''expiresAt'' = Inr (JNum 99999999999999)"
    "js_gt example_host (JNum 99999999999999) 1000"
    by (simp_all add: example_defs js_gt_def js_to_number_def)
  have now: "clock (world_with n) (ticks (world_with n)) = 1000" for n
    by (simp add: example_defs clock_def time_value_at.rep_eq)
  show ?thesis
    using getToken_unusable_file[OF held[of Dir]] getToken_unusable_file[OF held[of NoAccess]]
      getToken_unusable_file[OF held[of "File ''not json''"]]
      getToken_unusable_file[OF held[of "File ''null''"]]
      getToken_unusable_file[OF held[of \<open>File ''{"subject":"alice","action":"read"}''\<close>]]
      getToken_unusable_file[OF held[of \<open>File ''{"expiresAt":99999999999999}''\<close>]]
      rejected null request bare now
    by (simp add: js_gt_def js_to_number_def)
qed

text \<open>
  C4 as the specification has it, that every file which does not hold a
  \<open>{ token, expiresAt }\<close> pair is read as \<open>null\<close>, does not hold: a file with an object
  that has a far expiry and no token is valid JSON, is not such a pair, and is returned as
  the credential, where an absent file gives \<open>null\<close>.
\<close>

theorem getToken_returns_tokenless_counterexample:
  \<open>JSON_parse example_host ''{"expiresAt":99999999999999}''
      = Inr (JObj [(''expiresAt'', JNum 99999999999999)])
   \<and> \<not> is_TokenData (JObj [(''expiresAt'', JNum 99999999999999)])
   \<and> fst (getToken example_host (world_with (File ''{"expiresAt":99999999999999}'')))
       = Some (JObj [(''expiresAt'', JNum 99999999999999)])
   \<and> fst (getToken example_host example_world) = None\<close>
  by (simp add: example_defs run_defs is_TokenData_def)

section \<open>The signing account\<close>

text \<open>
  C9: for a private key \<open>k\<close> that does not begin with \<open>0x\<close>, \<open>createUnifiedClient\<close> derives
  the signing account from \<open>0x\<close> followed by \<open>k\<close>, whether it is given \<open>k\<close> or \<open>0x\<close> followed
  by \<open>k\<close>: in both cases the account, or the error, is that of \<open>privateKeyToAccount\<close> on
  \<open>0x\<close> followed by \<open>k\<close>, and the clients are built on that account. So the two results are
  the same, and so are those of \<open>initSDKWithPrivateKey\<close> when \<open>k\<close> is not empty.
\<close>

theorem createUnifiedClient_prefix_invariant:
  assumes "\<not> startsWith k ''0x''"
  shows "createUnifiedClient h k c =
           (case privateKeyToAccount h (''0x'' @ k) of
              Inl e \<Rightarrow> Inl e
            | Inr acct \<Rightarrow>
                Inr \<lparr>uc_account = acct,
                     uc_open = \<lparr>pc_chain = c\<rparr>,
                     uc_private = \<lparr>wc_account = acct, wc_chain = c\<rparr>\<rparr>)
       \<and> createUnifiedClient h (''0x'' @ k) c =
           (case privateKeyToAccount h (''0x'' @ k) of
              Inl e \<Rightarrow> Inl e
            | Inr acct \<Rightarrow>
                Inr \<lparr>uc_account = acct,
                     uc_open = \<lparr>pc_chain = c\<rparr>,
                     uc_private = \<lparr>wc_account = acct, wc_chain = c\<rparr>\<rparr>)
       \<and> map_sum id uc_account (createUnifiedClient h k c) = privateKeyToAccount h (''0x'' @ k)
       \<and> map_sum id uc_account (createUnifiedClient h (''0x'' @ k) c)
           = privateKeyToAccount h (''0x'' @ k)
       \<and> createUnifiedClient h (''0x'' @ k) c = createUnifiedClient h k c
       \<and> (k \<noteq> [] \<longrightarrow> initSDKWithPrivateKey h (''0x'' @ k) a u w = initSDKWithPrivateKey h k a u w)"
  using assms
  by (cases "privateKeyToAccount h (''0x'' @ k)")
     (simp_all add: createUnifiedClient_def initSDKWithPrivateKey_def startsWith_def slice_def)

theorem createUnifiedClient_prefix_invariant_witness:
  "createUnifiedClient example_host (''0x'' @ example_key) sepolia
     = createUnifiedClient example_host example_key sepolia
 \<and> map_sum id uc_account (createUnifiedClient example_host example_key sepolia) = Inr example_account
 \<and> map_sum id uc_account (createUnifiedClient example_host (''0x'' @ example_key) sepolia)
     = Inr example_account
 \<and> createUnifiedClient example_host ''zz'' sepolia = Inl (Error ''invalid private key'')
 \<and> createUnifiedClient example_host ''0xzz'' sepolia = Inl (Error ''invalid private key'')
 \<and> map_sum id uc_account (createUnifiedClient lenient_host ''zz'' sepolia) = Inr example_account
 \<and> initSDKWithPrivateKey example_host (''0x'' @ example_key) [] DEFAULT_API_URI example_world
     = initSDKWithPrivateKey example_host example_key [] DEFAULT_API_URI example_world
 \<and> fst (initSDKWithPrivateKey example_host example_key [] DEFAULT_API_URI example_world)
     = Inr example_mesh"
proof -
  have bare: "\<not> startsWith example_key ''0x''" "example_key \<noteq> []" "\<not> startsWith ''zz'' ''0x''"
    by (simp_all add: example_key_def startsWith_def)
  have derived: "privateKeyToAccount example_host (''0x'' @ example_key) = Inr example_account"
    "privateKeyToAccount example_host (''0x'' @ ''zz'') = Inl (Error ''invalid private key'')"
    "privateKeyToAccount lenient_host (''0x'' @ ''zz'') = Inr example_account"
    by (simp_all add: example_defs lenient_host_def)
  have init: "fst (initSDKWithPrivateKey example_host example_key [] DEFAULT_API_URI example_world)
       = Inr example_mesh"
    by (simp add: example_defs run_defs)
  from createUnifiedClient_prefix_invariant[OF bare(1), of example_host sepolia "[]"
      DEFAULT_API_URI example_world]
    createUnifiedClient_prefix_invariant[OF bare(3), of example_host sepolia "[]"
      DEFAULT_API_URI example_world]
    createUnifiedClient_prefix_invariant[OF bare(3), of lenient_host sepolia "[]"
      DEFAULT_API_URI example_world]
    bare(2) derived init
  show ?thesis by simp
qed

section \<open>Signing in\<close>

text \<open>
  C5: a run of \<open>loginWithSIWE\<close> first requests a nonce for the address of the signer's
  account, then signs a message whose parameters carry the version \<open>1\<close> and the nonce
  received, then submits the message and the signature it got back, each at most once
  and in this order. The token is written to the credential file, with an expiry of the
  time of the save plus 2592000 seconds, only when the submission has been accepted, and
  after it. When one of these steps fails, the run fails with the error of that step
  after the calls made so far, and the file system is as it was: nothing has been written.
  When the three steps have succeeded and the run fails, the error is that of the save,
  which is not undone.
\<close>

theorem loginWithSIWE_sequence:
  assumes run: "loginWithSIWE h r env m w = (res, w')"
  shows "\<exists>evs. trace w' = trace w @ Call (RequestNonce (address (uc_account (getSigner m)))) # evs \<and>
    (case res of
       Inl e \<Rightarrow>
         (evs = [] \<and> nodes w' = nodes w \<and>
            (requestNonce r m (address (uc_account (getSigner m))) = Inl e
             \<or> URL_hostname h (or_default (API_URI env) DEFAULT_API_URI) = Inl e)
          \<or> (\<exists>p. evs = [Call (SignSiWeMessage p)] \<and> nodes w' = nodes w \<and>
                  siwe_version p = ''1'' \<and>
                  requestNonce r m (address (uc_account (getSigner m))) = Inr (siwe_nonce p) \<and>
                  signSiWeMessage r m p = Inl e)
          \<or> (\<exists>p msg sg.
                  evs = [Call (SignSiWeMessage p), Call (AuthenticateSiWe msg sg)] \<and>
                  nodes w' = nodes w \<and>
                  siwe_version p = ''1'' \<and>
                  requestNonce r m (address (uc_account (getSigner m))) = Inr (siwe_nonce p) \<and>
                  signSiWeMessage r m p = Inr (msg, sg) \<and>
                  authenticateSiWe r m msg sg = Inl e)
          \<or> (\<exists>p msg sg token more.
                  evs = Call (SignSiWeMessage p) # Call (AuthenticateSiWe msg sg) # more \<and>
                  (\<forall>ev \<in> set more. \<forall>c. ev \<noteq> Call c) \<and>
                  siwe_version p = ''1'' \<and>
                  requestNonce r m (address (uc_account (getSigner m))) = Inr (siwe_nonce p) \<and>
                  signSiWeMessage r m p = Inr (msg, sg) \<and>
                  authenticateSiWe r m msg sg = Inr token \<and>
                  saveToken h token (Finite 2592000)
                    (emit (Call (AuthenticateSiWe msg sg)) (emit (Call (SignSiWeMessage p))
                       (emit (Call (RequestNonce (address (uc_account (getSigner m))))) w
                          \<lparr>ticks := Suc (ticks w)\<rparr>))) = (Inl e, w')))
     | Inr token \<Rightarrow>
         (\<exists>p msg sg pre.
            evs = Call (SignSiWeMessage p) # Call (AuthenticateSiWe msg sg) # pre @
                    [Wrote (TOKEN_FILE h)
                       (JSON_stringify h (TokenData token (clock w (Suc (ticks w)) + 2592000 * 1000)))] \<and>
            (pre = [] \<or> pre = map MadeDir (missing h w (TOKEN_DIR h))) \<and>
            siwe_version p = ''1'' \<and>
            requestNonce r m (address (uc_account (getSigner m))) = Inr (siwe_nonce p) \<and>
            signSiWeMessage r m p = Inr (msg, sg) \<and>
            authenticateSiWe r m msg sg = Inr token \<and>
            nodes w' (TOKEN_FILE h) =
              Some (File (JSON_stringify h (TokenData token (clock w (Suc (ticks w)) + 2592000 * 1000))))))"
  using run
proof (cases rule: loginWithSIWE_cases)
  case (nonce_failed e)
  then show ?thesis by (simp add: emit_def)
next
  case (url_failed e nonce)
  then show ?thesis by (simp add: emit_def)
next
  case (sign_failed e nonce domain p)
  then show ?thesis by (simp add: emit_def siweMessageParams_def)
next
  case (auth_failed e nonce domain p msg sg)
  then show ?thesis by (simp add: emit_def siweMessageParams_def)
next
  case (saving nonce domain p msg sg token r5)
  have pv: "siwe_version p = ''1''" "siwe_nonce p = nonce"
    using saving(3) by (simp_all add: siweMessageParams_def)
  let ?w4 = "emit (Call (AuthenticateSiWe msg sg)) (emit (Call (SignSiWeMessage p))
                       (emit (Call (RequestNonce (address (uc_account (getSigner m))))) w
                          \<lparr>ticks := Suc (ticks w)\<rparr>))"
  have w4: "nodes ?w4 = nodes w" "ticks ?w4 = Suc (ticks w)"
    "trace ?w4 = trace w @ [Call (RequestNonce (address (uc_account (getSigner m)))),
        Call (SignSiWeMessage p), Call (AuthenticateSiWe msg sg)]"
    "missing h ?w4 (TOKEN_DIR h) = missing h w (TOKEN_DIR h)"
    by (simp_all add: emit_def missing_def)
  have stored: "TokenObject token
        (js_add (Finite (of_int (clock ?w4 (ticks ?w4)))) (js_mul (Finite 2592000) (Finite 1000)))
      = TokenData token (clock w (Suc (ticks w)) + 2592000 * 1000)"
    by (simp add: TokenObject_30_days w4(2))
  from saving(6) show ?thesis
  proof (cases rule: saveToken_cases)
    case (ok pre)
    with saving(1,4,5,7) pv w4 stored show ?thesis
      by auto
  next
    case (failed e evs)
    with saving(1,4,5,6,7) pv w4 show ?thesis
      by auto
  qed
qed

theorem loginWithSIWE_sequence_witness:
  \<open>fst (loginWithSIWE example_host example_remote example_env example_mesh example_world)
     = Inr ''jwt-1''
   \<and> trace (snd (loginWithSIWE example_host example_remote example_env example_mesh example_world))
     = [Call (RequestNonce ''0x7E5F4552091A69125d5DfCb7b8C2659029395Bdf''),
        Call (SignSiWeMessage
          (siweMessageParams ''localhost'' ''0x7E5F4552091A69125d5DfCb7b8C2659029395Bdf''
             ''http://localhost:8080'' ''nonce-1'' 1000)),
        Call (AuthenticateSiWe ''siwe-message'' ''0xsignature''),
        MadeDir ''/home/user/.mesh-cli'',
        Wrote ''/home/user/.mesh-cli/token.json'' ''{"token":"jwt-1","expiresAt":2592001001}'']
   \<and> fst (loginWithSIWE example_host refusing_remote example_env example_mesh example_world)
     = Inl (Error ''401'')
   \<and> trace (snd (loginWithSIWE example_host refusing_remote example_env example_mesh example_world))
     = [Call (RequestNonce ''0x7E5F4552091A69125d5DfCb7b8C2659029395Bdf''),
        Call (SignSiWeMessage
          (siweMessageParams ''localhost'' ''0x7E5F4552091A69125d5DfCb7b8C2659029395Bdf''
             ''http://localhost:8080'' ''nonce-1'' 1000)),
        Call (AuthenticateSiWe ''siwe-message'' ''0xsignature'')]
   \<and> nodes (snd (loginWithSIWE example_host refusing_remote example_env example_mesh example_world))
     = nodes example_world
   \<and> fst (loginWithSIWE example_host example_remote example_env example_mesh
        ((world_with (File ''{"token":"jwt-1","expiresAt":2592001001}''))
           \<lparr>write_fault := [''/home/user/.mesh-cli/token.json'' \<mapsto> 0]\<rparr>))
     = Inl (SystemError ''EIO'')
   \<and> nodes (snd (loginWithSIWE example_host example_remote example_env example_mesh
        ((world_with (File ''{"token":"jwt-1","expiresAt":2592001001}''))
           \<lparr>write_fault := [''/home/user/.mesh-cli/token.json'' \<mapsto> 0]\<rparr>)))
        ''/home/user/.mesh-cli/token.json'' = Some (File [])\<close>
proof -
  let ?ok = "loginWithSIWE example_host example_remote example_env example_mesh example_world"
  let ?no = "loginWithSIWE example_host refusing_remote example_env example_mesh example_world"
  let ?bad = \<open>loginWithSIWE example_host example_remote example_env example_mesh
        ((world_with (File ''{"token":"jwt-1","expiresAt":2592001001}''))
           \<lparr>write_fault := [''/home/user/.mesh-cli/token.json'' \<mapsto> 0]\<rparr>)\<close>
  have ok: "?ok = (Inr ''jwt-1'', snd ?ok)" and no: "?no = (Inl (Error ''401''), snd ?no)"
    by (simp_all add: prod_eq_iff example_defs refusing_remote_def run_defs)
  have traces: \<open>trace (snd ?ok)
     = [Call (RequestNonce ''0x7E5F4552091A69125d5DfCb7b8C2659029395Bdf''),
        Call (SignSiWeMessage
          (siweMessageParams ''localhost'' ''0x7E5F4552091A69125d5DfCb7b8C2659029395Bdf''
             ''http://localhost:8080'' ''nonce-1'' 1000)),
        Call (AuthenticateSiWe ''siwe-message'' ''0xsignature''),
        MadeDir ''/home/user/.mesh-cli'',
        Wrote ''/home/user/.mesh-cli/token.json'' ''{"token":"jwt-1","expiresAt":2592001001}'']\<close>
    \<open>trace (snd ?no)
     = [Call (RequestNonce ''0x7E5F4552091A69125d5DfCb7b8C2659029395Bdf''),
        Call (SignSiWeMessage
          (siweMessageParams ''localhost'' ''0x7E5F4552091A69125d5DfCb7b8C2659029395Bdf''
             ''http://localhost:8080'' ''nonce-1'' 1000)),
        Call (AuthenticateSiWe ''siwe-message'' ''0xsignature'')]\<close>
    by (simp_all add: example_defs refusing_remote_def run_defs)
  have bad: \<open>fst ?bad = Inl (SystemError ''EIO'')\<close>
    \<open>nodes (snd ?bad) ''/home/user/.mesh-cli/token.json'' = Some (File [])\<close>
    by (simp_all add: example_defs run_defs)
  from loginWithSIWE_sequence[OF no]
  have unchanged: "nodes (snd ?no) = nodes example_world"
    by (auto simp: example_defs refusing_remote_def)
  from loginWithSIWE_sequence[OF ok]
  have "nodes (snd ?ok) (TOKEN_FILE example_host) \<noteq> None"
    by auto
  with ok no traces unchanged bad show ?thesis
    by (metis fst_conv)
qed

text \<open>
  C2: after a run of \<open>loginWithSIWE\<close> that returned the token \<open>t\<close>, every read of the cache
  made while the credential file is as the run left it and the clock is strictly before
  the stored expiry returns the pair that was saved, whose token is \<open>t\<close>. The JSON codec
  is taken to parse what it printed for that pair.
\<close>

theorem login_then_getToken:
  assumes run: "loginWithSIWE h r env m w = (Inr t, w')"
      and codec: "JSON_parse h (JSON_stringify h (TokenData t (clock w (Suc (ticks w)) + 2592000000)))
                    = Inr (TokenData t (clock w (Suc (ticks w)) + 2592000000))"
      and later: "nodes w'' (TOKEN_FILE h) = nodes w' (TOKEN_FILE h)"
      and valid: "clock w'' (ticks w'') < clock w (Suc (ticks w)) + 2592000000"
  shows "fst (getToken h w'') = Some (TokenData t (clock w (Suc (ticks w)) + 2592000000))
       \<and> get_prop (TokenData t (clock w (Suc (ticks w)) + 2592000000)) ''token'' = Inr (JStr t)"
  using run
proof (cases rule: loginWithSIWE_cases)
  case (saving nonce domain p msg sg token r5)
  from saving(6) show ?thesis
  proof (cases rule: saveToken_cases)
    case (ok pre)
    with saving have "token = t" by simp
    with ok(4) later
    have "nodes w'' (TOKEN_FILE h) =
            Some (File (JSON_stringify h (TokenData t (clock w (Suc (ticks w)) + 2592000000))))"
      by (simp add: emit_def TokenObject_30_days)
    with codec valid show ?thesis
      by (simp add: getToken_def existsSync_def readFileSync_def Date_now_def js_gt_def
          js_to_number_def TokenData_def)
  next
    case (failed e evs)
    with saving show ?thesis by simp
  qed
qed simp_all

theorem login_then_getToken_witness:
  "fst (getToken example_host
     (snd (loginWithSIWE example_host example_remote example_env example_mesh example_world)))
     = Some (TokenData ''jwt-1'' 2592001001)
 \<and> get_prop (TokenData ''jwt-1'' 2592001001) ''token'' = Inr (JStr ''jwt-1'')"
proof -
  let ?run = "loginWithSIWE example_host example_remote example_env example_mesh example_world"
  have run: "?run = (Inr ''jwt-1'', snd ?run)"
    by (simp add: prod_eq_iff example_defs run_defs)
  have codec: "JSON_parse example_host (JSON_stringify example_host
        (TokenData ''jwt-1'' (clock example_world (Suc (ticks example_world)) + 2592000000)))
      = Inr (TokenData ''jwt-1'' (clock example_world (Suc (ticks example_world)) + 2592000000))"
    by (simp add: example_defs TokenData_def clock_def time_value_at.rep_eq)
  have valid: "clock (snd ?run) (ticks (snd ?run))
      < clock example_world (Suc (ticks example_world)) + 2592000000"
    by (simp add: example_defs run_defs)
  from login_then_getToken[OF run codec refl valid] show ?thesis
    by (simp add: example_defs clock_def time_value_at.rep_eq)
qed

text \<open>
  C10: every message that \<open>loginWithSIWE\<close> hands to the signer has the chain id 1 and the
  version \<open>1\<close>, its domain is the host name of the API URI in force (\<open>API_URI\<close>, or
  \<open>http://localhost:8080\<close> when that is unset or empty) and its URI is that URI, whatever
  the chain of the signer's wallet client; the default chain of the signer, sepolia, has
  another id.
\<close>

theorem siwe_message_constants:
  assumes run: "loginWithSIWE h r env m w = (res, w')"
      and sent: "Call (SignSiWeMessage p) \<in> set (drop (length (trace w)) (trace w'))"
  shows "siwe_chainId p = 1 \<and> siwe_version p = ''1''
       \<and> URL_hostname h (or_default (API_URI env) DEFAULT_API_URI) = Inr (siwe_domain p)
       \<and> siwe_uri p = or_default (API_URI env) DEFAULT_API_URI
       \<and> or_default None DEFAULT_API_URI = ''http://localhost:8080''
       \<and> siwe_chainId p \<noteq> chain_id sepolia"
  using run
proof (cases rule: loginWithSIWE_cases)
  case (saving nonce domain p' msg sg token r5)
  from saving(6) show ?thesis
  proof (cases rule: saveToken_cases)
    case (ok pre)
    with sent saving(2,3) show ?thesis
      by (auto simp: emit_def siweMessageParams_def sepolia_def DEFAULT_API_URI_def)
  next
    case (failed e evs)
    with sent saving(2,3) show ?thesis
      by (auto simp: emit_def siweMessageParams_def sepolia_def DEFAULT_API_URI_def)
  qed
qed (use sent in \<open>auto simp: emit_def siweMessageParams_def sepolia_def DEFAULT_API_URI_def\<close>)

theorem siwe_message_constants_witness:
  "siwe_chainId (siweMessageParams ''localhost'' ''0x7E5F4552091A69125d5DfCb7b8C2659029395Bdf''
       ''http://localhost:8080'' ''nonce-1'' 1000) = 1
 \<and> chain_id (wc_chain (uc_private (getSigner example_mesh))) = 11155111
 \<and> URL_hostname example_host (or_default (API_URI example_env) DEFAULT_API_URI) = Inr ''localhost''
 \<and> Call (SignSiWeMessage (siweMessageParams ''localhost'' ''0x7E5F4552091A69125d5DfCb7b8C2659029395Bdf''
       ''http://localhost:8080'' ''nonce-1'' 1000))
     \<in> set (trace (snd (loginWithSIWE example_host example_remote example_env example_mesh example_world)))"
proof -
  let ?run = "loginWithSIWE example_host example_remote example_env example_mesh example_world"
  let ?p = "siweMessageParams ''localhost'' ''0x7E5F4552091A69125d5DfCb7b8C2659029395Bdf''
       ''http://localhost:8080'' ''nonce-1'' 1000"
  have run: "?run = (fst ?run, snd ?run)" by simp
  have sent: "Call (SignSiWeMessage ?p) \<in> set (drop (length (trace example_world)) (trace (snd ?run)))"
    by (simp add: example_defs run_defs)
  have "chain_id (wc_chain (uc_private (getSigner example_mesh))) = 11155111"
    by (simp add: example_defs sepolia_def)
  with siwe_message_constants[OF run sent] sent show ?thesis
    by (simp add: example_defs siweMessageParams_def)
qed

section \<open>Choosing the client\<close>

text \<open>
  C8, as amended: a variable counts as given when it is set to a string that is not
  empty. When neither \<open>API_KEY\<close> nor \<open>PRIVATE_KEY\<close> is given, \<open>initSDK\<close> fails with its own
  error. When \<open>PRIVATE_KEY\<close> is given, the result is that of \<open>initSDKWithPrivateKey\<close>,
  whether or not \<open>API_KEY\<close> is given too; when \<open>API_KEY\<close> is given and \<open>PRIVATE_KEY\<close> is
  not, it is that of \<open>initSDKWithApiKey\<close>, and a lite client is returned in this case
  only. Where key derivation and the constructors of the SDK cannot fail, \<open>initSDK\<close>
  fails if and only if neither variable is given.
\<close>

theorem initSDK_branches:
  "(\<not> present (API_KEY env) \<and> \<not> present (PRIVATE_KEY env) \<longrightarrow>
      initSDK h env w =
        (Inl (Error ''Either API_KEY or PRIVATE_KEY must be provided in environment variables''), w))
 \<and> (present (PRIVATE_KEY env) \<longrightarrow>
      initSDK h env w =
        (case initSDKWithPrivateKey h (or_default (PRIVATE_KEY env) []) (or_default (API_KEY env) [])
                (or_default (API_URI env) DEFAULT_API_URI) w of
           (Inl e, w1) \<Rightarrow> (Inl e, w1)
         | (Inr m, w1) \<Rightarrow> (Inr (Mesh m), w1)))
 \<and> (present (API_KEY env) \<and> \<not> present (PRIVATE_KEY env) \<longrightarrow>
      initSDK h env w =
        (case initSDKWithApiKey h (or_default (API_KEY env) []) (or_default (API_URI env) DEFAULT_API_URI) of
           Inl e \<Rightarrow> (Inl e, w)
         | Inr lite \<Rightarrow> (Inr (MeshLite lite), w)))
 \<and> ((\<exists>lite. fst (initSDK h env w) = Inr (MeshLite lite)) \<longrightarrow>
      present (API_KEY env) \<and> \<not> present (PRIVATE_KEY env))
 \<and> ((\<exists>m. fst (initSDK h env w) = Inr (Mesh m)) \<longrightarrow> present (PRIVATE_KEY env))
 \<and> ((\<forall>k. \<exists>a. privateKeyToAccount h k = Inr a) \<and> (\<forall>opts. \<exists>m. MeshSDK_init h opts = Inr m)
      \<and> (\<forall>opts. \<exists>l. MeshSDKLite_init h opts = Inr l) \<longrightarrow>
      ((\<exists>e. fst (initSDK h env w) = Inl e) \<longleftrightarrow>
         \<not> present (API_KEY env) \<and> \<not> present (PRIVATE_KEY env)))"
proof (intro conjI impI)
  assume lib: "(\<forall>k. \<exists>a. privateKeyToAccount h k = Inr a) \<and> (\<forall>opts. \<exists>m. MeshSDK_init h opts = Inr m)
      \<and> (\<forall>opts. \<exists>l. MeshSDKLite_init h opts = Inr l)"
  show "(\<exists>e. fst (initSDK h env w) = Inl e) \<longleftrightarrow>
         \<not> present (API_KEY env) \<and> \<not> present (PRIVATE_KEY env)"
  proof (cases "present (PRIVATE_KEY env)")
    case True
    then have "or_default (PRIVATE_KEY env) [] \<noteq> []" using present_or_default by blast
    with lib obtain m where
      "fst (initSDKWithPrivateKey h (or_default (PRIVATE_KEY env) []) (or_default (API_KEY env) [])
                (or_default (API_URI env) DEFAULT_API_URI) w) = Inr m"
      using initSDKWithPrivateKey_succeeds by blast
    with True show ?thesis
      by (auto simp: initSDK_def Let_def split: prod.splits sum.splits)
  next
    case False
    show ?thesis
    proof (cases "present (API_KEY env)")
      case True
      then have ne: "or_default (API_KEY env) [] \<noteq> []" using present_or_default by blast
      from lib obtain l where "MeshSDKLite_init h \<lparr>apiUri = or_default (API_URI env) DEFAULT_API_URI,
             apiKey = or_default (API_KEY env) [], version = SDK_VERSION\<rparr> = Inr l" by blast
      with True False ne show ?thesis
        by (simp add: initSDK_def Let_def initSDKWithApiKey_def)
    next
      case nokey: False
      with False show ?thesis by (simp add: initSDK_def Let_def)
    qed
  qed
qed (auto simp: initSDK_def Let_def split: prod.splits sum.splits if_splits)

theorem initSDK_branches_witness:
  "initSDK example_host \<lparr>API_KEY = Some [], PRIVATE_KEY = None, API_URI = None\<rparr> example_world
     = (Inl (Error ''Either API_KEY or PRIVATE_KEY must be provided in environment variables''),
        example_world)
 \<and> fst (initSDK example_host \<lparr>API_KEY = Some ''key-1'', PRIVATE_KEY = Some example_key, API_URI = None\<rparr>
          example_world)
     = Inr (Mesh (example_mesh\<lparr>mesh_config := \<lparr>apiUri = DEFAULT_API_URI, apiKey = ''key-1'',
                                                 version = SDK_VERSION\<rparr>\<rparr>))
 \<and> fst (initSDK example_host \<lparr>API_KEY = Some ''key-1'', PRIVATE_KEY = None, API_URI = None\<rparr>
          example_world)
     = Inr (MeshLite \<lparr>lite_config = \<lparr>apiUri = DEFAULT_API_URI, apiKey = ''key-1'',
                                      version = SDK_VERSION\<rparr>\<rparr>)
 \<and> fst (initSDK example_host \<lparr>API_KEY = None, PRIVATE_KEY = Some ''zz'', API_URI = None\<rparr>
          example_world)
     = Inl (Error ''invalid private key'')
 \<and> fst (initSDK lenient_host \<lparr>API_KEY = None, PRIVATE_KEY = Some ''zz'', API_URI = None\<rparr>
          example_world)
     = Inr (Mesh example_mesh)"
proof -
  let ?none = "\<lparr>API_KEY = Some [], PRIVATE_KEY = None, API_URI = None\<rparr>"
  let ?both = "\<lparr>API_KEY = Some ''key-1'', PRIVATE_KEY = Some example_key, API_URI = None\<rparr>"
  let ?api = "\<lparr>API_KEY = Some ''key-1'', PRIVATE_KEY = None, API_URI = None\<rparr>"
  let ?bad = "\<lparr>API_KEY = None, PRIVATE_KEY = Some ''zz'', API_URI = None\<rparr>"
  have none: "\<not> present (API_KEY ?none) \<and> \<not> present (PRIVATE_KEY ?none)" by simp
  have both: "present (PRIVATE_KEY ?both)" "present (PRIVATE_KEY ?bad)"
    by (simp_all add: example_key_def)
  have api: "present (API_KEY ?api) \<and> \<not> present (PRIVATE_KEY ?api)" by simp
  have lib: "(\<forall>k. \<exists>a. privateKeyToAccount lenient_host k = Inr a)
      \<and> (\<forall>opts. \<exists>m. MeshSDK_init lenient_host opts = Inr m)
      \<and> (\<forall>opts. \<exists>l. MeshSDKLite_init lenient_host opts = Inr l)"
    by (simp add: example_defs lenient_host_def)
  have 1: "initSDK example_host ?none example_world
     = (Inl (Error ''Either API_KEY or PRIVATE_KEY must be provided in environment variables''),
        example_world)"
    using initSDK_branches[of ?none example_host example_world] none by blast
  have 2: "fst (initSDK example_host ?both example_world)
     = Inr (Mesh (example_mesh\<lparr>mesh_config := \<lparr>apiUri = DEFAULT_API_URI, apiKey = ''key-1'',
                                                 version = SDK_VERSION\<rparr>\<rparr>))"
    using initSDK_branches[of ?both example_host example_world] both(1)
    by (simp add: example_defs run_defs)
  have 3: "fst (initSDK example_host ?api example_world)
     = Inr (MeshLite \<lparr>lite_config = \<lparr>apiUri = DEFAULT_API_URI, apiKey = ''key-1'',
                                      version = SDK_VERSION\<rparr>\<rparr>)"
    using initSDK_branches[of ?api example_host example_world] api
    by (simp add: example_defs run_defs)
  have 4: "fst (initSDK example_host ?bad example_world) = Inl (Error ''invalid private key'')"
    using initSDK_branches[of ?bad example_host example_world] both(2)
    by (simp add: example_defs run_defs)
  have "\<not> (\<exists>e. fst (initSDK lenient_host ?bad example_world) = Inl e)"
    using initSDK_branches[of ?bad lenient_host example_world] lib both(2) by blast
  then have 5: "fst (initSDK lenient_host ?bad example_world) = Inr (Mesh example_mesh)"
    by (simp add: example_defs lenient_host_def run_defs)
  from 1 2 3 4 5 show ?thesis by blast
qed

text \<open>
  C8 as the specification has it, that \<open>initSDK\<close> fails only when neither variable is
  set, does not hold: with \<open>API_KEY\<close> set to the empty string and \<open>PRIVATE_KEY\<close> unset, a
  variable is set and \<open>initSDK\<close> fails.
\<close>

theorem initSDK_empty_api_key_counterexample:
  "API_KEY \<lparr>API_KEY = Some [], PRIVATE_KEY = None, API_URI = None\<rparr> \<noteq> None
 \<and> fst (initSDK example_host \<lparr>API_KEY = Some [], PRIVATE_KEY = None, API_URI = None\<rparr> example_world)
     = Inl (Error ''Either API_KEY or PRIVATE_KEY must be provided in environment variables'')"
  by (simp add: initSDK_def)

section \<open>The commands\<close>

text \<open>
  C7: when the address given to \<open>auth account-exists\<close> does not start with \<open>0x\<close>, the
  handler prints an error and returns without any call on the client: after the spinner
  is started, and the notice that a cached token is in use where there is one, the trace
  ends with the failure of the spinner and the error. Unless \<open>initSDK\<close> has failed first,
  the error is that the address must start with \<open>0x\<close>. The file system is as it was.
\<close>

theorem account_exists_rejects_locally:
  assumes "\<not> startsWith addr ''0x''"
  shows "\<exists>pre msg err.
           trace (account_exists_action h r env addr w) =
             trace w @ SpinnerStart ''Checking if account exists...'' # pre @
               [SpinnerFail msg, ConsoleError err]
         \<and> (pre = [] \<or> pre = [ConsoleLog ''Using existing token''])
         \<and> ((\<exists>e. fst (initSDK h env (emit (SpinnerStart ''Checking if account exists...'') w)) = Inl e)
              \<or> msg = ''Invalid address format'' \<and> err = ''Error: Address must start with 0x'')
         \<and> nodes (account_exists_action h r env addr w) = nodes w
         \<and> (\<forall>c. Call c \<notin> set pre \<union> {SpinnerFail msg, ConsoleError err})"
proof -
  let ?w0 = "emit (SpinnerStart ''Checking if account exists...'') w"
  obtain res w1 where i: "initSDK h env ?w0 = (res, w1)" by (cases "initSDK h env ?w0")
  from initSDK_world[OF i]
  have w1: "nodes w1 = nodes w"
    "trace w1 = trace w @ [SpinnerStart ''Checking if account exists...''] \<or>
     trace w1 = trace w @ [SpinnerStart ''Checking if account exists...'']
                  @ [ConsoleLog ''Using existing token'']"
    by (auto simp: emit_def)
  show ?thesis
  proof (cases res)
    case (Inl e)
    with i w1 show ?thesis
      by (auto simp: account_exists_action_def Let_def report_failure_def emit_def)
  next
    case (Inr sdk)
    with i w1 assms show ?thesis
      by (auto simp: account_exists_action_def Let_def emit_def)
  qed
qed

theorem account_exists_rejects_locally_witness:
  "trace (account_exists_action example_host example_remote example_env
            ''7E5F4552091A69125d5DfCb7b8C2659029395Bdf'' example_world)
     = [SpinnerStart ''Checking if account exists...'',
        SpinnerFail ''Invalid address format'',
        ConsoleError ''Error: Address must start with 0x'']
 \<and> trace (account_exists_action example_host example_remote example_env
            ''0x7E5F4552091A69125d5DfCb7b8C2659029395Bdf'' example_world)
     = [SpinnerStart ''Checking if account exists...'',
        Call (AccountExists ''0x7E5F4552091A69125d5DfCb7b8C2659029395Bdf''),
        SpinnerSucceed ''Account check completed'',
        ConsoleLog (nl @ ''Account exists''),
        Call AccountDetail]"
proof -
  have bare: "\<not> startsWith ''7E5F4552091A69125d5DfCb7b8C2659029395Bdf'' ''0x''"
    by (simp add: startsWith_def)
  have init: "fst (initSDK example_host example_env
      (emit (SpinnerStart ''Checking if account exists...'') example_world)) = Inr (Mesh example_mesh)"
    by (simp add: example_defs run_defs)
  from account_exists_rejects_locally[OF bare, of example_host example_remote example_env example_world]
  obtain pre msg err where t: "trace (account_exists_action example_host example_remote example_env
            ''7E5F4552091A69125d5DfCb7b8C2659029395Bdf'' example_world)
       = trace example_world @ SpinnerStart ''Checking if account exists...'' # pre @
               [SpinnerFail msg, ConsoleError err]"
    and "msg = ''Invalid address format'' \<and> err = ''Error: Address must start with 0x''"
    using init by auto
  moreover have "trace (account_exists_action example_host example_remote example_env
            ''7E5F4552091A69125d5DfCb7b8C2659029395Bdf'' example_world)
     = [SpinnerStart ''Checking if account exists...'',
        SpinnerFail ''Invalid address format'',
        ConsoleError ''Error: Address must start with 0x'']"
    by (simp add: account_exists_action_def example_defs run_defs)
  moreover have "trace (account_exists_action example_host example_remote example_env
            ''0x7E5F4552091A69125d5DfCb7b8C2659029395Bdf'' example_world)
     = [SpinnerStart ''Checking if account exists...'',
        Call (AccountExists ''0x7E5F4552091A69125d5DfCb7b8C2659029395Bdf''),
        SpinnerSucceed ''Account check completed'',
        ConsoleLog (nl @ ''Account exists''),
        Call AccountDetail]"
    by (simp add: account_exists_action_def example_defs run_defs)
  ultimately show ?thesis by blast
qed

text \<open>
  C6: a request given to \<open>auth authorize\<close> in a file whose text parses to a value, and
  the same request given inline as a string that parses to the same value, lead to the
  same run of the handler, and when the client can be built the payload of
  \<open>validateAuthorization\<close> is that value in both; the same holds for
  \<open>auth authorize-batch\<close> and \<open>validateAuthorizations\<close>. The path and the string are not
  empty.
\<close>

theorem authorize_file_and_json_agree:
  assumes f: "f \<noteq> []" and j: "j \<noteq> []"
      and content: "nodes w f = Some (File text)"
      and ptext: "JSON_parse h text = Inr v"
      and pj: "JSON_parse h j = Inr v"
  shows "authorize_action h r env \<lparr>opt_file = Some f, opt_json = None, opt_outfile = out\<rparr> w
           = authorize_action h r env \<lparr>opt_file = None, opt_json = Some j, opt_outfile = out\<rparr> w
       \<and> authorize_batch_action h r env \<lparr>opt_file = Some f, opt_json = None, opt_outfile = out\<rparr> w
           = authorize_batch_action h r env \<lparr>opt_file = None, opt_json = Some j, opt_outfile = out\<rparr> w
       \<and> ((\<exists>sdk w1. initSDK h env (emit (SpinnerStart ''Validating authorization...'') w) = (Inr sdk, w1)) \<longrightarrow>
            Call (ValidateAuthorization v) \<in>
              set (trace (authorize_action h r env \<lparr>opt_file = Some f, opt_json = None, opt_outfile = out\<rparr> w)) \<and>
            Call (ValidateAuthorization v) \<in>
              set (trace (authorize_action h r env \<lparr>opt_file = None, opt_json = Some j, opt_outfile = out\<rparr> w)))
       \<and> ((\<exists>sdk w1. initSDK h env (emit (SpinnerStart ''Validating batch authorization...'') w) = (Inr sdk, w1)) \<longrightarrow>
            Call (ValidateAuthorizations v) \<in>
              set (trace (authorize_batch_action h r env \<lparr>opt_file = Some f, opt_json = None, opt_outfile = out\<rparr> w)) \<and>
            Call (ValidateAuthorizations v) \<in>
              set (trace (authorize_batch_action h r env \<lparr>opt_file = None, opt_json = Some j, opt_outfile = out\<rparr> w)))"
proof -
  note rf = requestData_file[OF f content ptext, of None out]
  note rj = requestData_json[OF j pj, of out]
  have a: "authorize_action h r env \<lparr>opt_file = Some f, opt_json = None, opt_outfile = out\<rparr> w
           = authorize_action h r env \<lparr>opt_file = None, opt_json = Some j, opt_outfile = out\<rparr> w"
    by (rule authorize_action_options) (simp_all add: rf rj)
  have b: "authorize_batch_action h r env \<lparr>opt_file = Some f, opt_json = None, opt_outfile = out\<rparr> w
           = authorize_batch_action h r env \<lparr>opt_file = None, opt_json = Some j, opt_outfile = out\<rparr> w"
    by (rule authorize_batch_action_options) (simp_all add: rf rj)
  show ?thesis
    using a b authorize_action_sends[OF rj] authorize_batch_action_sends[OF rj]
    by auto
qed

theorem authorize_file_and_json_agree_witness:
  \<open>trace (authorize_action example_host example_remote example_env
      \<lparr>opt_file = Some ''request.json'', opt_json = None, opt_outfile = Flag\<rparr> request_world)
    = trace (authorize_action example_host example_remote example_env
      \<lparr>opt_file = None, opt_json = Some ''{"subject":"alice","action":"read"}'', opt_outfile = Flag\<rparr>
      request_world)
   \<and> trace (authorize_action example_host example_remote example_env
      \<lparr>opt_file = Some ''request.json'', opt_json = None, opt_outfile = Flag\<rparr> request_world)
    = [SpinnerStart ''Validating authorization...'',
       Call (ValidateAuthorization (JObj [(''subject'', JStr ''alice''), (''action'', JStr ''read'')])),
       SpinnerSucceed ''Authorization validated'',
       ConsoleLog (nl @ ''Authorization Response:''),
       ConsoleLog (''{'' @ nl @ ''  "authorized": true'' @ nl @ ''}''),
       MadeDir ''tmp'',
       Wrote ''tmp/my.json'' (''{'' @ nl @ ''  "authorized": true'' @ nl @ ''}''),
       ConsoleLog (nl @ ''Response saved to tmp/my.json'')]
   \<and> Call (ValidateAuthorizations (JObj [(''subject'', JStr ''alice''), (''action'', JStr ''read'')]))
       \<in> set (trace (authorize_batch_action example_host example_remote example_env
      \<lparr>opt_file = None, opt_json = Some ''{"subject":"alice","action":"read"}'', opt_outfile = Flag\<rparr>
      request_world))\<close>
proof -
  let ?v = "JObj [(''subject'', JStr ''alice''), (''action'', JStr ''read'')]"
  have f: "''request.json'' \<noteq> []" and j: \<open>''{"subject":"alice","action":"read"}'' \<noteq> []\<close>
    by simp_all
  have content: \<open>nodes request_world ''request.json''
      = Some (File ''{ "subject": "alice", "action": "read" }'')\<close>
    by (simp add: example_defs request_world_def)
  have ptext: \<open>JSON_parse example_host ''{ "subject": "alice", "action": "read" }'' = Inr ?v\<close>
    and pj: \<open>JSON_parse example_host ''{"subject":"alice","action":"read"}'' = Inr ?v\<close>
    by (simp_all add: example_defs)
  have init: "\<exists>sdk w1. initSDK example_host example_env
      (emit (SpinnerStart ''Validating batch authorization...'') request_world) = (Inr sdk, w1)"
    by (simp add: example_defs request_world_def run_defs)
  have run: \<open>trace (authorize_action example_host example_remote example_env
      \<lparr>opt_file = Some ''request.json'', opt_json = None, opt_outfile = Flag\<rparr> request_world)
    = [SpinnerStart ''Validating authorization...'',
       Call (ValidateAuthorization ?v),
       SpinnerSucceed ''Authorization validated'',
       ConsoleLog (nl @ ''Authorization Response:''),
       ConsoleLog (''{'' @ nl @ ''  "authorized": true'' @ nl @ ''}''),
       MadeDir ''tmp'',
       Wrote ''tmp/my.json'' (''{'' @ nl @ ''  "authorized": true'' @ nl @ ''}''),
       ConsoleLog (nl @ ''Response saved to tmp/my.json'')]\<close>
    by (simp add: authorize_action_def requestData_def saveResponse_def report_failure_def nl_def
        example_defs request_world_def run_defs)
  from authorize_file_and_json_agree[OF f j content ptext pj, of example_remote example_env Flag]
    init run
  show ?thesis by simp
qed

end
